theory Spec2Isabelle
  imports Main "HOL-Library.Word"
begin

section \<open>MacPmem.c: lifecycle of the two character devices\<close>

text \<open>
  The file \<^verbatim>\<open>tools/osx/MacPmem/MacPmem/MacPmem.c\<close> starts and stops the kernel extension.
  Everything it does is a call into the host kernel or into a collaborator module, or an
  assignment to one of its global handle variables. The embedding therefore consists of
  \<^item> the global variables, as a record;
  \<^item> a trace of the calls leaving the file, each with its arguments and the value it
    returned, oldest first (what an instrumented host records);
  \<^item> an environment that supplies the value every outside call returns, as a function of
    the position of the call in the trace and of its arguments.
  C \<^verbatim>\<open>int\<close> and \<^verbatim>\<open>kern_return_t\<close> are 32-bit words compared as signed numbers, pointers are
  64-bit words and the null pointer is 0.
\<close>

subsection \<open>Types\<close>

type_synonym int32 = "32 word"
type_synonym kern_return_t = "32 word"
type_synonym dev_t = "32 word"
type_synonym ptr = "64 word"

text \<open>The two status codes of \<^verbatim>\<open>mach/kern_return.h\<close> that the file names.\<close>

definition KERN_SUCCESS :: kern_return_t where
  "KERN_SUCCESS = 0"

definition KERN_FAILURE :: kern_return_t where
  "KERN_FAILURE = 5"

text \<open>Lines 84 and 89.\<close>

definition PMEM_DEV_MINOR :: int32 where
  "PMEM_DEV_MINOR = 1"

definition PMEM_INFO_MINOR :: int32 where
  "PMEM_INFO_MINOR = 2"

text \<open>Lines 39, 85 and 90.\<close>

definition pmem_tagname :: string where
  "pmem_tagname = ''pmem_tag''"

definition pmem_devname :: string where
  "pmem_devname = ''pmem''"

definition pmem_infoname :: string where
  "pmem_infoname = ''pmem_info''"

datatype level = Debug | Info | Warning | Error | Fatal

text \<open>An argument of a log message: a number for \<^verbatim>\<open>%d\<close>, a string for \<^verbatim>\<open>%s\<close>.\<close>

datatype logarg = Num int32 | Str string

text \<open>
  One constructor for each routine called from the file. Where the routine returns a value
  the last argument of the constructor is that value. \<open>Devfs_make_node\<close> keeps the device
  number, the permissions and the name; arguments that are constants of the host
  (\<^verbatim>\<open>OSMT_DEFAULT\<close>, \<^verbatim>\<open>DEVFS_CHAR\<close>, \<^verbatim>\<open>UID_ROOT\<close>, \<^verbatim>\<open>GID_WHEEL\<close>) and the address of the switch
  table are left out.
\<close>

datatype event =
    OSMalloc_Tagalloc string ptr
  | OSMalloc_Tagfree ptr
  | Lck_grp_attr_alloc_init ptr
  | Lck_grp_attr_setstat ptr
  | Lck_grp_alloc_init string ptr ptr
  | Lck_grp_attr_free ptr
  | Lck_grp_free ptr
  | Cdevsw_add int32 int32
  | Cdevsw_remove int32 int32
  | Devfs_make_node dev_t nat string ptr
  | Devfs_remove ptr
  | Sysctl_register_oid
  | Sysctl_unregister_oid
  | Pmem_meta_init kern_return_t
  | Pmem_pte_init kern_return_t
  | Pmem_meta_cleanup
  | Pmem_pte_cleanup
  | Pmem_openmeta kern_return_t
  | Pmem_closemeta kern_return_t
  | Pmem_readmeta ptr kern_return_t
  | Pmem_read_rogue ptr kern_return_t
  | Pmem_log level string "logarg list"

text \<open>
  What lies outside the file. \<open>PMEM_MAJOR\<close> is a constant of \<^verbatim>\<open>MacPmem.h\<close> and \<open>DEBUG\<close> a
  build flag; \<open>minor\<close> and \<open>makedev\<close> are macros of the host's headers. The remaining fields
  give the value returned by a host routine (\<open>osmalloc_tagalloc\<close> to \<open>devfs_make_node\<close>) or
  by a collaborator module (\<open>pmem_meta_init\<close> to \<open>pmem_read_rogue\<close>, from \<^verbatim>\<open>meta.h\<close>,
  \<^verbatim>\<open>pte_mmap.h\<close> and \<^verbatim>\<open>pmem_common.h\<close>); their first argument is the number of events
  before the call, so that a routine may return another value each time it is called.
  No collaborator assigns to a variable of this file: the specification gives the handles
  to the lifecycle manager alone.
\<close>

record env =
  PMEM_MAJOR :: int32
  DEBUG :: bool
  minor :: "dev_t \<Rightarrow> int32"
  makedev :: "int32 \<Rightarrow> int32 \<Rightarrow> dev_t"
  osmalloc_tagalloc :: "nat \<Rightarrow> string \<Rightarrow> ptr"
  lck_grp_attr_alloc_init :: "nat \<Rightarrow> ptr"
  lck_grp_alloc_init :: "nat \<Rightarrow> string \<Rightarrow> ptr \<Rightarrow> ptr"
  cdevsw_add :: "nat \<Rightarrow> int32 \<Rightarrow> int32"
  cdevsw_remove :: "nat \<Rightarrow> int32 \<Rightarrow> int32"
  devfs_make_node :: "nat \<Rightarrow> dev_t \<Rightarrow> nat \<Rightarrow> string \<Rightarrow> ptr"
  pmem_meta_init :: "nat \<Rightarrow> kern_return_t"
  pmem_pte_init :: "nat \<Rightarrow> kern_return_t"
  pmem_openmeta :: "nat \<Rightarrow> kern_return_t"
  pmem_closemeta :: "nat \<Rightarrow> kern_return_t"
  pmem_readmeta :: "nat \<Rightarrow> ptr \<Rightarrow> kern_return_t"
  pmem_read_rogue :: "nat \<Rightarrow> ptr \<Rightarrow> kern_return_t"

text \<open>The global variables of lines 37 to 45, 81, 86 and 91.\<close>

record handles =
  pmem_majorno :: int32
  pmem_tag :: ptr
  pmem_rwlock_grp :: ptr
  pmem_rwlock_grp_attr :: ptr
  pmem_mutex_grp :: ptr
  pmem_mutex_grp_attr :: ptr
  pmem_sysctl_needs_cleanup :: int32
  pmem_infonode :: ptr
  pmem_devnode :: ptr

record world = handles +
  trace :: "event list"

text \<open>The variables as their initialisers leave them, before any call.\<close>

definition initial :: "env \<Rightarrow> world" where
  "initial env =
     \<lparr>pmem_majorno = PMEM_MAJOR env, pmem_tag = 0, pmem_rwlock_grp = 0,
      pmem_rwlock_grp_attr = 0, pmem_mutex_grp = 0, pmem_mutex_grp_attr = 0,
      pmem_sysctl_needs_cleanup = 0, pmem_infonode = 0, pmem_devnode = 0, trace = []\<rparr>"

definition emit :: "event \<Rightarrow> world \<Rightarrow> world" where
  "emit ev w = w\<lparr>trace := trace w @ [ev]\<rparr>"

text \<open>
  Modelled from the spec: the macros of \<^verbatim>\<open>logging.h\<close>, which is not among the sources. The
  specification gives them as levelled message emission with no return value, always
  available; here each records its level, its format string and its arguments.
\<close>

definition pmem_debug :: "string \<Rightarrow> logarg list \<Rightarrow> world \<Rightarrow> world" where
  "pmem_debug fmt args w = emit (Pmem_log Debug fmt args) w"

definition pmem_info :: "string \<Rightarrow> logarg list \<Rightarrow> world \<Rightarrow> world" where
  "pmem_info fmt args w = emit (Pmem_log Info fmt args) w"

definition pmem_warn :: "string \<Rightarrow> logarg list \<Rightarrow> world \<Rightarrow> world" where
  "pmem_warn fmt args w = emit (Pmem_log Warning fmt args) w"

definition pmem_error :: "string \<Rightarrow> logarg list \<Rightarrow> world \<Rightarrow> world" where
  "pmem_error fmt args w = emit (Pmem_log Error fmt args) w"

definition pmem_fatal :: "string \<Rightarrow> logarg list \<Rightarrow> world \<Rightarrow> world" where
  "pmem_fatal fmt args w = emit (Pmem_log Fatal fmt args) w"

text \<open>Lines 93 to 97: octal 0666 in a debug build, octal 0660 otherwise.\<close>

definition PMEM_DEV_PERMS :: "env \<Rightarrow> nat" where
  "PMEM_DEV_PERMS env = (if DEBUG env then 438 else 432)"

subsection \<open>The switch table callbacks (lines 100 to 144)\<close>

definition pmem_open :: "env \<Rightarrow> dev_t \<Rightarrow> world \<Rightarrow> kern_return_t \<times> world" where
  "pmem_open env dev w =
     (if minor env dev = PMEM_DEV_MINOR then (KERN_SUCCESS, w)
      else if minor env dev = PMEM_INFO_MINOR then
        (let r = pmem_openmeta env (length (trace w)) in (r, emit (Pmem_openmeta r) w))
      else
        (KERN_FAILURE, pmem_warn ''Unknown minor device number %d.'' [Num (minor env dev)] w))"

definition pmem_close :: "env \<Rightarrow> dev_t \<Rightarrow> world \<Rightarrow> kern_return_t \<times> world" where
  "pmem_close env dev w =
     (if minor env dev = PMEM_DEV_MINOR then (KERN_SUCCESS, w)
      else if minor env dev = PMEM_INFO_MINOR then
        (let r = pmem_closemeta env (length (trace w)) in (r, emit (Pmem_closemeta r) w))
      else
        (KERN_FAILURE, pmem_warn ''Unknown minor device number %d.'' [Num (minor env dev)] w))"

definition pmem_read :: "env \<Rightarrow> dev_t \<Rightarrow> ptr \<Rightarrow> world \<Rightarrow> kern_return_t \<times> world" where
  "pmem_read env dev uio w =
     (if minor env dev = PMEM_DEV_MINOR then
        (let r = pmem_read_rogue env (length (trace w)) uio in (r, emit (Pmem_read_rogue uio r) w))
      else if minor env dev = PMEM_INFO_MINOR then
        (let r = pmem_readmeta env (length (trace w)) uio in (r, emit (Pmem_readmeta uio r) w))
      else
        (KERN_FAILURE, pmem_warn ''Unknown minor device number %d.'' [Num (minor env dev)] w))"

subsection \<open>\<^verbatim>\<open>pmem_cleanup\<close> (lines 153 to 192)\<close>

definition pmem_cleanup :: "env \<Rightarrow> kern_return_t \<Rightarrow> world \<Rightarrow> kern_return_t \<times> world" where
  "pmem_cleanup env error w0 =
     (let
        w1 = (if pmem_devnode w0 \<noteq> 0 then emit (Devfs_remove (pmem_devnode w0)) w0 else w0);
        w2 = (if pmem_infonode w1 \<noteq> 0 then emit (Devfs_remove (pmem_infonode w1)) w1 else w1);
        (error, w3) =
          (if 0 <s pmem_majorno w2 then
             (let removed_idx = cdevsw_remove env (length (trace w2)) (pmem_majorno w2);
                  w = emit (Cdevsw_remove (pmem_majorno w2) removed_idx) w2
              in if removed_idx \<noteq> pmem_majorno w then
                   (KERN_FAILURE,
                    pmem_error
                      ''Failed to remove cdevsw! Major number is %d, but cdevsw_remove() returned %d.''
                      [Num (pmem_majorno w), Num removed_idx] w)
                 else (error, w))
           else (error, w2));
        w4 = (if pmem_tag w3 \<noteq> 0 then emit (OSMalloc_Tagfree (pmem_tag w3)) w3 else w3);
        w5 = emit Pmem_meta_cleanup w4;
        w6 = emit Pmem_pte_cleanup w5;
        w7 = (if pmem_sysctl_needs_cleanup w6 \<noteq> 0 then emit Sysctl_unregister_oid w6 else w6);
        w8 = emit (Lck_grp_attr_free (pmem_mutex_grp_attr w7)) w7;
        w9 = emit (Lck_grp_free (pmem_mutex_grp w8)) w8;
        w10 = emit (Lck_grp_attr_free (pmem_rwlock_grp_attr w9)) w9;
        w11 = emit (Lck_grp_free (pmem_rwlock_grp w10)) w10
      in (error, w11))"

subsection \<open>\<^verbatim>\<open>pmem_init\<close> (lines 196 to 241)\<close>

definition pmem_init :: "env \<Rightarrow> world \<Rightarrow> kern_return_t \<times> world" where
  "pmem_init env w0 =
     (let
        tag = osmalloc_tagalloc env (length (trace w0)) pmem_tagname;
        w1 = (emit (OSMalloc_Tagalloc pmem_tagname tag) w0)\<lparr>pmem_tag := tag\<rparr>;
        rwattr = lck_grp_attr_alloc_init env (length (trace w1));
        w2 = (emit (Lck_grp_attr_alloc_init rwattr) w1)\<lparr>pmem_rwlock_grp_attr := rwattr\<rparr>;
        w3 = emit (Lck_grp_attr_setstat (pmem_rwlock_grp_attr w2)) w2;
        rwgrp = lck_grp_alloc_init env (length (trace w3)) ''pmem_rwlock'' (pmem_rwlock_grp_attr w3);
        w4 = (emit (Lck_grp_alloc_init ''pmem_rwlock'' (pmem_rwlock_grp_attr w3) rwgrp) w3)
               \<lparr>pmem_rwlock_grp := rwgrp\<rparr>;
        mtxattr = lck_grp_attr_alloc_init env (length (trace w4));
        w5 = (emit (Lck_grp_attr_alloc_init mtxattr) w4)\<lparr>pmem_mutex_grp_attr := mtxattr\<rparr>;
        w6 = emit (Lck_grp_attr_setstat (pmem_mutex_grp_attr w5)) w5;
        mtxgrp = lck_grp_alloc_init env (length (trace w6)) ''pmem_mutex'' (pmem_mutex_grp_attr w6);
        w7 = (emit (Lck_grp_alloc_init ''pmem_mutex'' (pmem_mutex_grp_attr w6) mtxgrp) w6)
               \<lparr>pmem_mutex_grp := mtxgrp\<rparr>;
        major = cdevsw_add env (length (trace w7)) (PMEM_MAJOR env);
        w8 = (emit (Cdevsw_add (PMEM_MAJOR env) major) w7)\<lparr>pmem_majorno := major\<rparr>
      in
        if pmem_majorno w8 <s 0 then
          (KERN_FAILURE, pmem_error ''Failed to register a major number.'' [] w8)
        else
          (let
             w9 = pmem_debug ''Major number is %d.'' [Num (pmem_majorno w8)] w8;
             infodev = makedev env (pmem_majorno w9) PMEM_INFO_MINOR;
             infonode = devfs_make_node env (length (trace w9)) infodev (PMEM_DEV_PERMS env) pmem_infoname;
             w10 = (emit (Devfs_make_node infodev (PMEM_DEV_PERMS env) pmem_infoname infonode) w9)
                     \<lparr>pmem_infonode := infonode\<rparr>
           in
             if pmem_infonode w10 = 0 then
               (KERN_FAILURE, pmem_error ''Failed to create /dev/%s'' [Str pmem_infoname] w10)
             else
               (let
                  w11 = pmem_info ''/dev/%s created for the info device.'' [Str pmem_infoname] w10;
                  memdev = makedev env (pmem_majorno w11) PMEM_DEV_MINOR;
                  devnode = devfs_make_node env (length (trace w11)) memdev (PMEM_DEV_PERMS env) pmem_devname;
                  w12 = (emit (Devfs_make_node memdev (PMEM_DEV_PERMS env) pmem_devname devnode) w11)
                          \<lparr>pmem_devnode := devnode\<rparr>
                in
                  if pmem_devnode w12 = 0 then
                    (KERN_FAILURE, pmem_error ''Failed to create /dev/%s'' [Str pmem_devname] w12)
                  else
                    (KERN_SUCCESS,
                     pmem_info ''/dev/%s created for the physical memory device.'' [Str pmem_devname]
                       w12))))"

subsection \<open>The entry points (lines 244 to 274)\<close>

definition com_google_MacPmem_start :: "env \<Rightarrow> world \<Rightarrow> kern_return_t \<times> world" where
  "com_google_MacPmem_start env w0 =
     (let
        w1 = pmem_info ''Loaded MacPmem.'' [] w0;
        (error, w2) = pmem_init env w1
      in
        if error \<noteq> KERN_SUCCESS then
          pmem_cleanup env error (pmem_fatal ''pmem_init() failed.'' [] w2)
        else
          (let
             error = pmem_meta_init env (length (trace w2));
             w3 = emit (Pmem_meta_init error) w2
           in
             if error \<noteq> KERN_SUCCESS then
               pmem_cleanup env error (pmem_fatal ''Could not initialize pmem meta.'' [] w3)
             else
               (let
                  error = pmem_pte_init env (length (trace w3));
                  w4 = emit (Pmem_pte_init error) w3
                in
                  if error \<noteq> KERN_SUCCESS then
                    pmem_cleanup env error
                      (pmem_fatal ''Could not initialize PTE mmap module.'' [] w4)
                  else
                    (let
                       w5 = emit Sysctl_register_oid w4;
                       w6 = w5\<lparr>pmem_sysctl_needs_cleanup := 1\<rparr>
                     in (error, w6)))))"

definition com_google_MacPmem_stop :: "env \<Rightarrow> world \<Rightarrow> kern_return_t \<times> world" where
  "com_google_MacPmem_stop env w0 =
     pmem_cleanup env KERN_SUCCESS (pmem_info ''Unloading MacPmem'' [] w0)"

subsection \<open>Reading a trace\<close>

text \<open>The events of \<open>w'\<close> that are not yet in \<open>w\<close>: what a run from \<open>w\<close> to \<open>w'\<close> has added.\<close>

definition since :: "world \<Rightarrow> world \<Rightarrow> event list" where
  "since w w' = drop (length (trace w)) (trace w')"

text \<open>
  The calls that give a resource back, with the handle they are given and without the value
  the host returns.
\<close>

datatype release =
    Rel_node ptr
  | Rel_major int32
  | Rel_tag ptr
  | Rel_meta
  | Rel_pte
  | Rel_sysctl
  | Rel_grp_attr ptr
  | Rel_grp ptr

definition release_of :: "event \<Rightarrow> release option" where
  "release_of ev =
     (case ev of
        Devfs_remove p \<Rightarrow> Some (Rel_node p)
      | Cdevsw_remove m r \<Rightarrow> Some (Rel_major m)
      | OSMalloc_Tagfree p \<Rightarrow> Some (Rel_tag p)
      | Pmem_meta_cleanup \<Rightarrow> Some Rel_meta
      | Pmem_pte_cleanup \<Rightarrow> Some Rel_pte
      | Sysctl_unregister_oid \<Rightarrow> Some Rel_sysctl
      | Lck_grp_attr_free p \<Rightarrow> Some (Rel_grp_attr p)
      | Lck_grp_free p \<Rightarrow> Some (Rel_grp p)
      | _ \<Rightarrow> None)"

definition releases :: "event list \<Rightarrow> release list" where
  "releases tr = List.map_filter release_of tr"

text \<open>
  The release calls of one run of \<open>pmem_cleanup\<close>, read off its text from top to bottom
  (\<open>pmem_cleanup_releases\<close> below proves that these are the calls it makes).
\<close>

definition cleanup_releases :: "world \<Rightarrow> release list" where
  "cleanup_releases w =
     (if pmem_devnode w \<noteq> 0 then [Rel_node (pmem_devnode w)] else []) @
     (if pmem_infonode w \<noteq> 0 then [Rel_node (pmem_infonode w)] else []) @
     (if 0 <s pmem_majorno w then [Rel_major (pmem_majorno w)] else []) @
     (if pmem_tag w \<noteq> 0 then [Rel_tag (pmem_tag w)] else []) @
     [Rel_meta, Rel_pte] @
     (if pmem_sysctl_needs_cleanup w \<noteq> 0 then [Rel_sysctl] else []) @
     [Rel_grp_attr (pmem_mutex_grp_attr w), Rel_grp (pmem_mutex_grp w),
      Rel_grp_attr (pmem_rwlock_grp_attr w), Rel_grp (pmem_rwlock_grp w)]"

subsection \<open>\<^verbatim>\<open>pmem_cleanup\<close> in closed form\<close>

text \<open>
  \<open>pmem_cleanup\<close> assigns to no variable, so every test it makes can be read on the world it
  starts from. The definitions below give the events of one run, block by block, and the
  status it returns; \<open>pmem_cleanup_eq\<close> proves that they describe \<open>pmem_cleanup\<close>.
\<close>

definition node_events :: "world \<Rightarrow> event list" where
  "node_events w =
     (if pmem_devnode w \<noteq> 0 then [Devfs_remove (pmem_devnode w)] else []) @
     (if pmem_infonode w \<noteq> 0 then [Devfs_remove (pmem_infonode w)] else [])"

text \<open>The value \<open>cdevsw_remove\<close> returns on line 164 when \<open>pmem_cleanup\<close> runs from \<open>w\<close>.\<close>

definition removed_idx :: "env \<Rightarrow> world \<Rightarrow> int32" where
  "removed_idx env w =
     cdevsw_remove env (length (trace w) + length (node_events w)) (pmem_majorno w)"

definition major_events :: "env \<Rightarrow> world \<Rightarrow> event list" where
  "major_events env w =
     (if 0 <s pmem_majorno w then
        Cdevsw_remove (pmem_majorno w) (removed_idx env w) #
        (if removed_idx env w \<noteq> pmem_majorno w then
           [Pmem_log Error
              ''Failed to remove cdevsw! Major number is %d, but cdevsw_remove() returned %d.''
              [Num (pmem_majorno w), Num (removed_idx env w)]]
         else [])
      else [])"

definition tail_events :: "world \<Rightarrow> event list" where
  "tail_events w =
     (if pmem_tag w \<noteq> 0 then [OSMalloc_Tagfree (pmem_tag w)] else []) @
     [Pmem_meta_cleanup, Pmem_pte_cleanup] @
     (if pmem_sysctl_needs_cleanup w \<noteq> 0 then [Sysctl_unregister_oid] else []) @
     [Lck_grp_attr_free (pmem_mutex_grp_attr w), Lck_grp_free (pmem_mutex_grp w),
      Lck_grp_attr_free (pmem_rwlock_grp_attr w), Lck_grp_free (pmem_rwlock_grp w)]"

definition cleanup_events :: "env \<Rightarrow> world \<Rightarrow> event list" where
  "cleanup_events env w = node_events w @ major_events env w @ tail_events w"

definition cleanup_status :: "env \<Rightarrow> kern_return_t \<Rightarrow> world \<Rightarrow> kern_return_t" where
  "cleanup_status env error w =
     (if 0 <s pmem_majorno w \<and> removed_idx env w \<noteq> pmem_majorno w then KERN_FAILURE
      else error)"

subsection \<open>Failures, read from a trace\<close>

text \<open>
  The status with which an acquisition step fails, when the event shows that it failed:
  \<open>pmem_init\<close> returns \<open>KERN_FAILURE\<close> after a negative \<open>cdevsw_add\<close> (line 211) and after a
  null \<open>devfs_make_node\<close> (lines 223 and 234), and \<open>com_google_MacPmem_start\<close> takes the
  status of a collaborator's initialiser that is not \<open>KERN_SUCCESS\<close> (lines 253 and 259).
  No other call of the start sequence has its result tested.
\<close>

definition failure_of :: "event \<Rightarrow> kern_return_t option" where
  "failure_of ev =
     (case ev of
        Cdevsw_add m r \<Rightarrow> if r <s 0 then Some KERN_FAILURE else None
      | Devfs_make_node dev perms name p \<Rightarrow> if p = 0 then Some KERN_FAILURE else None
      | Pmem_meta_init r \<Rightarrow> if r \<noteq> KERN_SUCCESS then Some r else None
      | Pmem_pte_init r \<Rightarrow> if r \<noteq> KERN_SUCCESS then Some r else None
      | _ \<Rightarrow> None)"

text \<open>The error of the first step that failed, if one did.\<close>

definition first_error :: "event list \<Rightarrow> kern_return_t option" where
  "first_error tr = (case List.map_filter failure_of tr of [] \<Rightarrow> None | e # es \<Rightarrow> Some e)"

text \<open>Some deregistration in the trace returned a number other than the one it was given.\<close>

definition echo_failed :: "event list \<Rightarrow> bool" where
  "echo_failed tr =
     list_ex (\<lambda>ev. case ev of Cdevsw_remove m r \<Rightarrow> r \<noteq> m | _ \<Rightarrow> False) tr"

subsection \<open>Acquisitions, read from a trace\<close>

text \<open>
  The release that gives back what an acquiring call has returned. A tag or a node counts
  when the pointer returned is not null, a major number when the number returned is not
  negative, a collaborator when its initialiser returned \<open>KERN_SUCCESS\<close>. What an allocation
  of a lock group or of its attribute returns is counted as it is, null or not: the code
  stores it untested and frees it untested.
\<close>

definition acquired_of :: "event \<Rightarrow> release option" where
  "acquired_of ev =
     (case ev of
        OSMalloc_Tagalloc name p \<Rightarrow> if p \<noteq> 0 then Some (Rel_tag p) else None
      | Lck_grp_attr_alloc_init p \<Rightarrow> Some (Rel_grp_attr p)
      | Lck_grp_alloc_init name attr p \<Rightarrow> Some (Rel_grp p)
      | Cdevsw_add m r \<Rightarrow> if 0 \<le>s r then Some (Rel_major r) else None
      | Devfs_make_node dev perms name p \<Rightarrow> if p \<noteq> 0 then Some (Rel_node p) else None
      | Pmem_meta_init r \<Rightarrow> if r = KERN_SUCCESS then Some Rel_meta else None
      | Pmem_pte_init r \<Rightarrow> if r = KERN_SUCCESS then Some Rel_pte else None
      | Sysctl_register_oid \<Rightarrow> Some Rel_sysctl
      | _ \<Rightarrow> None)"

text \<open>The acquisitions of a trace, in the order in which they were made.\<close>

definition acquisitions :: "event list \<Rightarrow> release list" where
  "acquisitions tr = List.map_filter acquired_of tr"

text \<open>
  What the handle variables say has been acquired by \<open>pmem_init\<close>, in the order of its calls
  (\<open>pmem_init_acquisitions\<close> below proves that these are the acquisitions of its events when
  it starts with both node handles null).
\<close>

definition acquired_by_handles :: "world \<Rightarrow> release list" where
  "acquired_by_handles w =
     (if pmem_tag w \<noteq> 0 then [Rel_tag (pmem_tag w)] else []) @
     [Rel_grp_attr (pmem_rwlock_grp_attr w), Rel_grp (pmem_rwlock_grp w),
      Rel_grp_attr (pmem_mutex_grp_attr w), Rel_grp (pmem_mutex_grp w)] @
     (if 0 \<le>s pmem_majorno w then [Rel_major (pmem_majorno w)] else []) @
     (if pmem_infonode w \<noteq> 0 then [Rel_node (pmem_infonode w)] else []) @
     (if pmem_devnode w \<noteq> 0 then [Rel_node (pmem_devnode w)] else [])"

subsection \<open>The rollback of the specification\<close>

text \<open>
  The specification numbers the acquisition steps: 1 the lock groups, 2 the major number,
  3 the metadata node, 4 the raw-memory node, 5 the metadata collaborator, 6 the page-table
  collaborator, 7 the configuration variable. Its sentence on a failure at step \<open>k\<close> asks
  for the releases of steps \<open>k - 1\<close> down to 1, in that order, and for nothing else.
  \<open>spec_rollback\<close> follows these words; it is compared with the releases of the code.
\<close>

definition spec_release :: "world \<Rightarrow> nat \<Rightarrow> release list" where
  "spec_release w step =
     (if step = 1 then
        [Rel_grp_attr (pmem_mutex_grp_attr w), Rel_grp (pmem_mutex_grp w),
         Rel_grp_attr (pmem_rwlock_grp_attr w), Rel_grp (pmem_rwlock_grp w)]
      else if step = 2 then [Rel_major (pmem_majorno w)]
      else if step = 3 then [Rel_node (pmem_infonode w)]
      else if step = 4 then [Rel_node (pmem_devnode w)]
      else if step = 5 then [Rel_meta]
      else if step = 6 then [Rel_pte]
      else if step = 7 then [Rel_sysctl]
      else [])"

definition spec_rollback :: "nat \<Rightarrow> world \<Rightarrow> release list" where
  "spec_rollback k w = concat (map (spec_release w) (rev [1..<k]))"

subsection \<open>A host for concrete runs\<close>

text \<open>
  A host on which every step succeeds: it hands out distinct non-null pointers, assigns the
  major number 17 and echoes it on deregistration, and both collaborators report success.
  \<open>PMEM_MAJOR\<close> is -1 and the two macros are those of the Darwin headers.
\<close>

definition host_ok :: env where
  "host_ok =
     \<lparr>PMEM_MAJOR = - 1, DEBUG = False,
      minor = (\<lambda>d. and d 0xFFFFFF),
      makedev = (\<lambda>x y. or (push_bit 24 x) y),
      osmalloc_tagalloc = (\<lambda>n name. 0x10),
      lck_grp_attr_alloc_init = (\<lambda>n. if n \<le> 3 then 0x21 else 0x22),
      lck_grp_alloc_init = (\<lambda>n name attr. if name = ''pmem_rwlock'' then 0x31 else 0x32),
      cdevsw_add = (\<lambda>n m. 17),
      cdevsw_remove = (\<lambda>n m. m),
      devfs_make_node = (\<lambda>n dev perms name. if name = ''pmem_info'' then 0x41 else 0x42),
      pmem_meta_init = (\<lambda>n. 0),
      pmem_pte_init = (\<lambda>n. 0),
      pmem_openmeta = (\<lambda>n. 0),
      pmem_closemeta = (\<lambda>n. 0),
      pmem_readmeta = (\<lambda>n uio. 0),
      pmem_read_rogue = (\<lambda>n uio. 0)\<rparr>"

text \<open>The variables after a start on \<open>host_ok\<close>, with an empty trace.\<close>

definition running :: world where
  "running =
     \<lparr>pmem_majorno = 17, pmem_tag = 0x10, pmem_rwlock_grp = 0x31,
      pmem_rwlock_grp_attr = 0x21, pmem_mutex_grp = 0x32, pmem_mutex_grp_attr = 0x22,
      pmem_sysctl_needs_cleanup = 1, pmem_infonode = 0x41, pmem_devnode = 0x42, trace = []\<rparr>"

text \<open>
  Variants of \<open>host_ok\<close>: deregistration returns -1 whatever it is given; the page-table
  collaborator fails to initialise; the metadata collaborator fails with status 3 and
  deregistration returns -1; every lock-group and attribute allocation returns null; the
  metadata collaborator fails with status 3; registration assigns major number 0.
\<close>

definition host_no_echo :: env where
  "host_no_echo = host_ok\<lparr>cdevsw_remove := (\<lambda>n m. - 1)\<rparr>"

definition host_pte_fails :: env where
  "host_pte_fails = host_ok\<lparr>pmem_pte_init := (\<lambda>n. KERN_FAILURE)\<rparr>"

definition host_meta_fails_no_echo :: env where
  "host_meta_fails_no_echo =
     host_ok\<lparr>cdevsw_remove := (\<lambda>n m. - 1), pmem_meta_init := (\<lambda>n. 3)\<rparr>"

definition host_no_lock_groups :: env where
  "host_no_lock_groups =
     host_ok\<lparr>lck_grp_attr_alloc_init := (\<lambda>n. 0), lck_grp_alloc_init := (\<lambda>n name attr. 0)\<rparr>"

definition host_meta_fails :: env where
  "host_meta_fails = host_ok\<lparr>pmem_meta_init := (\<lambda>n. 3)\<rparr>"

definition host_major_zero :: env where
  "host_major_zero = host_ok\<lparr>cdevsw_add := (\<lambda>n m. 0)\<rparr>"

text \<open>
  The events of \<open>com_google_MacPmem_start\<close> on \<open>host_ok\<close> up to the end of \<open>pmem_init\<close>, and
  the world a start on \<open>host_ok\<close> leaves behind.
\<close>

definition ok_load_events :: "event list" where
  "ok_load_events =
     [Pmem_log Info ''Loaded MacPmem.'' [], OSMalloc_Tagalloc ''pmem_tag'' 0x10,
      Lck_grp_attr_alloc_init 0x21, Lck_grp_attr_setstat 0x21,
      Lck_grp_alloc_init ''pmem_rwlock'' 0x21 0x31,
      Lck_grp_attr_alloc_init 0x22, Lck_grp_attr_setstat 0x22,
      Lck_grp_alloc_init ''pmem_mutex'' 0x22 0x32,
      Cdevsw_add (- 1) 17, Pmem_log Debug ''Major number is %d.'' [Num 17],
      Devfs_make_node 0x11000002 432 ''pmem_info'' 0x41,
      Pmem_log Info ''/dev/%s created for the info device.'' [Str ''pmem_info''],
      Devfs_make_node 0x11000001 432 ''pmem'' 0x42,
      Pmem_log Info ''/dev/%s created for the physical memory device.'' [Str ''pmem'']]"

definition loaded :: world where
  "loaded = snd (com_google_MacPmem_start host_ok (initial host_ok))"

section \<open>Auxiliary facts\<close>

lemmas log_defs = pmem_debug_def pmem_info_def pmem_warn_def pmem_error_def pmem_fatal_def

lemmas const_defs = KERN_SUCCESS_def KERN_FAILURE_def PMEM_DEV_MINOR_def PMEM_INFO_MINOR_def
  pmem_tagname_def pmem_devname_def pmem_infoname_def PMEM_DEV_PERMS_def

subsection \<open>Lists of events\<close>

lemma releases_Nil: "releases [] = []"
  by (simp add: releases_def map_filter_simps)

lemma releases_append: "releases (xs @ ys) = releases xs @ releases ys"
  by (simp add: releases_def map_filter_def)

lemma releases_Cons:
  "releases (ev # tr) =
     (case release_of ev of None \<Rightarrow> releases tr | Some r \<Rightarrow> r # releases tr)"
  by (simp add: releases_def map_filter_simps split: option.splits)

lemma releases_Nil_not_mem:
  "releases tr = [] \<Longrightarrow> release_of ev \<noteq> None \<Longrightarrow> ev \<notin> set tr"
  by (induction tr) (auto simp add: releases_Cons split: option.splits)

lemma first_error_Nil: "first_error [] = None"
  by (simp add: first_error_def map_filter_simps)

lemma first_error_Cons:
  "first_error (ev # tr) = (case failure_of ev of None \<Rightarrow> first_error tr | Some e \<Rightarrow> Some e)"
  by (simp add: first_error_def map_filter_simps split: option.splits)

lemma first_error_append:
  "first_error (xs @ ys) = (case first_error xs of None \<Rightarrow> first_error ys | Some e \<Rightarrow> Some e)"
  by (induction xs) (simp_all add: first_error_Nil first_error_Cons split: option.splits)

lemma echo_failed_append: "echo_failed (xs @ ys) = (echo_failed xs \<or> echo_failed ys)"
  by (simp add: echo_failed_def)

lemma releases_Nil_no_echo: "releases tr = [] \<Longrightarrow> \<not> echo_failed tr"
  by (induction tr) (auto simp add: echo_failed_def releases_Cons release_of_def split: event.splits)

lemma acquisitions_Nil: "acquisitions [] = []"
  by (simp add: acquisitions_def map_filter_simps)

lemma acquisitions_append: "acquisitions (xs @ ys) = acquisitions xs @ acquisitions ys"
  by (simp add: acquisitions_def map_filter_def)

lemma acquisitions_Cons:
  "acquisitions (ev # tr) =
     (case acquired_of ev of None \<Rightarrow> acquisitions tr | Some r \<Rightarrow> r # acquisitions tr)"
  by (simp add: acquisitions_def map_filter_simps split: option.splits)

lemma since_extend: "since w (w'\<lparr>trace := trace w @ evs\<rparr>) = evs"
  by (simp add: since_def)

lemma since_trace: "trace w' = trace w @ evs \<Longrightarrow> since w w' = evs"
  by (simp add: since_def)

lemma trace_initial: "trace (initial env) = []"
  by (simp add: initial_def)

text \<open>An element that is not in the first part of a list splits the list in the second.\<close>

lemma split_after:
  assumes "pre @ x # post = A @ B" and "x \<notin> set A"
  shows "\<exists>us. pre = A @ us \<and> us @ x # post = B"
proof -
  from assms(1) obtain us where
    "(pre = A @ us \<and> us @ x # post = B) \<or> (pre @ us = A \<and> x # post = us @ B)"
    by (auto simp add: append_eq_append_conv2)
  then show ?thesis
  proof
    assume "pre = A @ us \<and> us @ x # post = B"
    then show ?thesis by blast
  next
    assume h: "pre @ us = A \<and> x # post = us @ B"
    show ?thesis
    proof (cases us)
      case Nil
      with h show ?thesis by simp
    next
      case (Cons u us')
      with h have "x \<in> set A" by auto
      with assms(2) show ?thesis by contradiction
    qed
  qed
qed

lemma positive_iff: "m \<noteq> 0 \<Longrightarrow> (0 <s m) = (0 \<le>s (m::int32))"
  by (auto simp add: signed.less_le)

subsection \<open>\<open>pmem_cleanup\<close> and \<open>com_google_MacPmem_stop\<close>\<close>

text \<open>
  The closed form of \<open>pmem_cleanup\<close>. The five tests on handles are decided first, so that
  each \<open>let\<close> of the definition is unfolded on a world that is already known.
\<close>

lemma pmem_cleanup_eq:
  "pmem_cleanup env e w =
     (cleanup_status env e w, w\<lparr>trace := trace w @ cleanup_events env w\<rparr>)"
  by (cases "pmem_devnode w = 0"; cases "pmem_infonode w = 0"; cases "0 <s pmem_majorno w";
      cases "pmem_tag w = 0"; cases "pmem_sysctl_needs_cleanup w = 0";
      simp add: pmem_cleanup_def Let_def pmem_error_def emit_def cleanup_status_def
        cleanup_events_def node_events_def major_events_def tail_events_def removed_idx_def
        cong: let_weak_cong prod.case_cong_weak)

lemmas cleanup_closed_defs = cleanup_events_def node_events_def major_events_def
  tail_events_def removed_idx_def cleanup_status_def

lemma pmem_cleanup_since: "since w (snd (pmem_cleanup env e w)) = cleanup_events env w"
  by (simp add: pmem_cleanup_eq since_extend)

lemma pmem_cleanup_handles:
  "handles.truncate (snd (pmem_cleanup env e w)) = handles.truncate w"
  by (simp add: pmem_cleanup_eq handles.truncate_def)

lemma releases_cleanup_events: "releases (cleanup_events env w) = cleanup_releases w"
  by (simp add: cleanup_events_def node_events_def major_events_def tail_events_def
      cleanup_releases_def releases_append releases_Cons releases_Nil release_of_def)

lemma pmem_cleanup_releases:
  "releases (since w (snd (pmem_cleanup env e w))) = cleanup_releases w"
  by (simp add: pmem_cleanup_since releases_cleanup_events)

lemma cleanup_releases_cong:
  "handles.truncate w = handles.truncate w' \<Longrightarrow> cleanup_releases w = cleanup_releases w'"
  by (simp add: cleanup_releases_def handles.truncate_def)

lemma acquired_by_handles_cong:
  "handles.truncate w = handles.truncate w' \<Longrightarrow> acquired_by_handles w = acquired_by_handles w'"
  by (simp add: acquired_by_handles_def handles.truncate_def)

lemma acquired_by_handles_released:
  "pmem_majorno w \<noteq> 0 \<Longrightarrow> set (acquired_by_handles w) \<subseteq> set (cleanup_releases w)"
  by (auto simp add: acquired_by_handles_def cleanup_releases_def positive_iff)

lemma acquisitions_cleanup_events: "acquisitions (cleanup_events env w) = []"
  by (simp add: cleanup_events_def node_events_def major_events_def tail_events_def
      acquisitions_append acquisitions_Cons acquisitions_Nil acquired_of_def)

lemma truncate_sysctl:
  "handles.truncate a = handles.truncate b \<Longrightarrow>
     pmem_sysctl_needs_cleanup a = pmem_sysctl_needs_cleanup b"
  by (simp add: handles.truncate_def)

lemma truncate_nodes:
  "handles.truncate a = handles.truncate b \<Longrightarrow>
     pmem_devnode a = pmem_devnode b \<and> pmem_infonode a = pmem_infonode b"
  by (simp add: handles.truncate_def)

lemma cleanup_keeps_failure: "e \<noteq> KERN_SUCCESS \<Longrightarrow> fst (pmem_cleanup env e w) \<noteq> KERN_SUCCESS"
  by (simp add: pmem_cleanup_eq cleanup_status_def KERN_SUCCESS_def KERN_FAILURE_def)

lemma echo_failed_cleanup_events:
  "echo_failed (cleanup_events env w) = (0 <s pmem_majorno w \<and> removed_idx env w \<noteq> pmem_majorno w)"
  by (simp add: echo_failed_def cleanup_events_def node_events_def major_events_def tail_events_def)

lemma emit_events:
  "node_events (emit ev w) = node_events w"
  "tail_events (emit ev w) = tail_events w"
  "pmem_majorno (emit ev w) = pmem_majorno w"
  by (simp_all add: node_events_def tail_events_def emit_def)

lemma stop_eq:
  "com_google_MacPmem_stop env w =
     (cleanup_status env KERN_SUCCESS (emit (Pmem_log Info ''Unloading MacPmem'' []) w),
      w\<lparr>trace := trace w @ Pmem_log Info ''Unloading MacPmem'' [] #
         cleanup_events env (emit (Pmem_log Info ''Unloading MacPmem'' []) w)\<rparr>)"
  by (simp add: com_google_MacPmem_stop_def pmem_cleanup_eq pmem_info_def emit_def)

text \<open>
  The lock groups are freed at the end of every run, with whatever the four variables hold:
  no test guards these calls, unlike the removal of the nodes and the freeing of the tag.
\<close>

lemma pmem_cleanup_frees_lock_groups:
  "\<exists>pre. since w (snd (pmem_cleanup env e w)) =
     pre @ [Lck_grp_attr_free (pmem_mutex_grp_attr w), Lck_grp_free (pmem_mutex_grp w),
            Lck_grp_attr_free (pmem_rwlock_grp_attr w), Lck_grp_free (pmem_rwlock_grp w)]"
proof -
  have "since w (snd (pmem_cleanup env e w)) =
      (node_events w @ major_events env w @
        (if pmem_tag w \<noteq> 0 then [OSMalloc_Tagfree (pmem_tag w)] else []) @
        [Pmem_meta_cleanup, Pmem_pte_cleanup] @
        (if pmem_sysctl_needs_cleanup w \<noteq> 0 then [Sysctl_unregister_oid] else [])) @
      [Lck_grp_attr_free (pmem_mutex_grp_attr w), Lck_grp_free (pmem_mutex_grp w),
       Lck_grp_attr_free (pmem_rwlock_grp_attr w), Lck_grp_free (pmem_rwlock_grp w)]"
    by (simp add: pmem_cleanup_since cleanup_events_def tail_events_def)
  then show ?thesis by blast
qed

subsection \<open>\<open>pmem_init\<close>\<close>

text \<open>
  \<open>pmem_init\<close> only adds events, none of them a release; the error its events show is the
  status it returns, which is \<open>KERN_SUCCESS\<close> or \<open>KERN_FAILURE\<close>; and the handles hold what
  the host returned.
\<close>

lemma pmem_init_trace: "\<exists>evs. trace (snd (pmem_init env w)) = trace w @ evs"
  by (simp add: pmem_init_def Let_def log_defs emit_def cong: let_weak_cong)

lemma pmem_init_releases: "releases (since w (snd (pmem_init env w))) = []"
  by (simp add: pmem_init_def Let_def log_defs emit_def since_def releases_append releases_Cons releases_Nil release_of_def cong: let_weak_cong)

lemma pmem_init_first_error:
  "first_error (since w (snd (pmem_init env w))) =
     (if fst (pmem_init env w) = KERN_SUCCESS then None else Some KERN_FAILURE)"
  by (simp add: pmem_init_def Let_def log_defs emit_def since_def first_error_Cons first_error_Nil
      first_error_append failure_of_def KERN_SUCCESS_def KERN_FAILURE_def cong: let_weak_cong)

lemma pmem_init_status:
  "fst (pmem_init env w) = KERN_SUCCESS \<or> fst (pmem_init env w) = KERN_FAILURE"
  by (simp add: pmem_init_def Let_def log_defs emit_def cong: let_weak_cong)

lemma pmem_init_stores:
  "Lck_grp_alloc_init ''pmem_rwlock'' (pmem_rwlock_grp_attr (snd (pmem_init env w)))
       (pmem_rwlock_grp (snd (pmem_init env w))) \<in> set (since w (snd (pmem_init env w))) \<and>
   Lck_grp_alloc_init ''pmem_mutex'' (pmem_mutex_grp_attr (snd (pmem_init env w)))
       (pmem_mutex_grp (snd (pmem_init env w))) \<in> set (since w (snd (pmem_init env w))) \<and>
   Cdevsw_add (PMEM_MAJOR env) (pmem_majorno (snd (pmem_init env w)))
       \<in> set (since w (snd (pmem_init env w)))"
  by (simp add: pmem_init_def Let_def log_defs emit_def since_def cong: let_weak_cong)

lemma pmem_init_sysctl:
  "pmem_sysctl_needs_cleanup (snd (pmem_init env w)) = pmem_sysctl_needs_cleanup w"
  by (simp add: pmem_init_def Let_def log_defs emit_def cong: let_weak_cong)

text \<open>
  The acquisitions among the events of \<open>pmem_init\<close> are all recorded in the handles; when
  it starts with both node handles null, the handles record nothing else.
\<close>

lemma pmem_init_acquired_subset:
  "set (acquisitions (since w (snd (pmem_init env w)))) \<subseteq>
     set (acquired_by_handles (snd (pmem_init env w)))"
  by (simp add: pmem_init_def Let_def log_defs emit_def since_def acquisitions_append
      acquisitions_Cons acquisitions_Nil acquired_of_def acquired_by_handles_def
      signed.not_less [symmetric] cong: let_weak_cong)

lemma pmem_init_acquisitions:
  assumes "pmem_infonode w = 0" and "pmem_devnode w = 0"
  shows "acquisitions (since w (snd (pmem_init env w))) = acquired_by_handles (snd (pmem_init env w))"
  using assms
  by (simp add: pmem_init_def Let_def log_defs emit_def since_def acquisitions_append
      acquisitions_Cons acquisitions_Nil acquired_of_def acquired_by_handles_def
      signed.not_less [symmetric] cong: let_weak_cong)

subsection \<open>\<open>com_google_MacPmem_start\<close>\<close>

text \<open>
  A start that fails ends in a call of \<open>pmem_cleanup\<close> with the error of the step that
  failed, on a world whose new events hold no release.
\<close>

lemma start_failure:
  assumes "fst (com_google_MacPmem_start env w) \<noteq> KERN_SUCCESS"
  obtains wk e evs where
    "com_google_MacPmem_start env w = pmem_cleanup env e wk"
    and "trace wk = trace w @ evs"
    and "releases evs = []"
    and "first_error evs = Some e"
    and "e \<noteq> KERN_SUCCESS"
proof -
  let ?w1 = "pmem_info ''Loaded MacPmem.'' [] w"
  let ?s = "fst (pmem_init env ?w1)"
  let ?w2 = "snd (pmem_init env ?w1)"
  obtain ei where ei: "trace ?w2 = trace ?w1 @ ei"
    using pmem_init_trace by blast
  have ei_since: "since ?w1 ?w2 = ei"
    by (rule since_trace [OF ei])
  have rel_ei: "releases ei = []"
    using pmem_init_releases [of ?w1 env] by (simp add: ei_since)
  have err_ei: "first_error ei = (if ?s = KERN_SUCCESS then None else Some KERN_FAILURE)"
    using pmem_init_first_error [of ?w1 env] by (simp add: ei_since)
  have tr1: "trace ?w1 = trace w @ [Pmem_log Info ''Loaded MacPmem.'' []]"
    by (simp add: pmem_info_def emit_def)
  show ?thesis
  proof (cases "?s = KERN_SUCCESS")
    case False
    then have s: "?s = KERN_FAILURE" using pmem_init_status [of env ?w1] by blast
    let ?wk = "pmem_fatal ''pmem_init() failed.'' [] ?w2"
    have "com_google_MacPmem_start env w = pmem_cleanup env ?s ?wk"
      using False by (simp add: com_google_MacPmem_start_def Let_def case_prod_beta)
    moreover have "trace ?wk = trace w @ (Pmem_log Info ''Loaded MacPmem.'' [] # ei @ [Pmem_log Fatal ''pmem_init() failed.'' []])"
      by (simp add: pmem_fatal_def emit_def ei tr1)
    moreover have "releases (Pmem_log Info ''Loaded MacPmem.'' [] # ei @ [Pmem_log Fatal ''pmem_init() failed.'' []]) = []"
      by (simp add: releases_Cons releases_append releases_Nil rel_ei release_of_def)
    moreover have "first_error (Pmem_log Info ''Loaded MacPmem.'' [] # ei @ [Pmem_log Fatal ''pmem_init() failed.'' []]) = Some ?s"
      using False by (simp add: first_error_Cons first_error_append err_ei failure_of_def s)
    ultimately show ?thesis using that False by blast
  next
    case True
    let ?m = "pmem_meta_init env (length (trace ?w2))"
    let ?w3 = "emit (Pmem_meta_init ?m) ?w2"
    show ?thesis
    proof (cases "?m = KERN_SUCCESS")
      case False
      let ?wk = "pmem_fatal ''Could not initialize pmem meta.'' [] ?w3"
      let ?evs = "Pmem_log Info ''Loaded MacPmem.'' [] # ei @ [Pmem_meta_init ?m, Pmem_log Fatal ''Could not initialize pmem meta.'' []]"
      have "com_google_MacPmem_start env w = pmem_cleanup env ?m ?wk"
        using True False by (simp add: com_google_MacPmem_start_def Let_def case_prod_beta)
      moreover have "trace ?wk = trace w @ ?evs"
        by (simp add: pmem_fatal_def emit_def ei tr1)
      moreover have "releases ?evs = []"
        by (simp add: releases_Cons releases_append releases_Nil rel_ei release_of_def)
      moreover have "first_error ?evs = Some ?m"
        using True False by (simp add: first_error_Cons first_error_append first_error_Nil err_ei failure_of_def)
      ultimately show ?thesis using that False by blast
    next
      case meta: True
      let ?p = "pmem_pte_init env (length (trace ?w3))"
      let ?w4 = "emit (Pmem_pte_init ?p) ?w3"
      have "?p \<noteq> KERN_SUCCESS"
        using assms True meta by (simp add: com_google_MacPmem_start_def Let_def case_prod_beta split: if_splits)
      let ?wk = "pmem_fatal ''Could not initialize PTE mmap module.'' [] ?w4"
      let ?evs = "Pmem_log Info ''Loaded MacPmem.'' [] # ei @ [Pmem_meta_init ?m, Pmem_pte_init ?p, Pmem_log Fatal ''Could not initialize PTE mmap module.'' []]"
      have "com_google_MacPmem_start env w = pmem_cleanup env ?p ?wk"
        using True meta \<open>?p \<noteq> KERN_SUCCESS\<close> by (simp add: com_google_MacPmem_start_def Let_def case_prod_beta)
      moreover have "trace ?wk = trace w @ ?evs"
        by (simp add: pmem_fatal_def emit_def ei tr1)
      moreover have "releases ?evs = []"
        by (simp add: releases_Cons releases_append releases_Nil rel_ei release_of_def)
      moreover have "first_error ?evs = Some ?p"
        using True meta \<open>?p \<noteq> KERN_SUCCESS\<close> by (simp add: first_error_Cons first_error_append first_error_Nil err_ei failure_of_def)
      ultimately show ?thesis using that \<open>?p \<noteq> KERN_SUCCESS\<close> by blast
    qed
  qed
qed

lemma start_failure_since:
  assumes "com_google_MacPmem_start env w = pmem_cleanup env e wk" and "trace wk = trace w @ evs"
  shows "since w (snd (com_google_MacPmem_start env w)) = evs @ cleanup_events env wk"
  using assms by (simp add: pmem_cleanup_eq since_def)

text \<open>
  The releases of a start that fails are those of \<open>pmem_cleanup\<close> on the handles it leaves,
  and its acquisitions are those of \<open>pmem_init\<close>, followed by the metadata collaborator
  when that was initialised.
\<close>

lemma start_failure_releases_by_handles:
  assumes "fst (com_google_MacPmem_start env w) \<noteq> KERN_SUCCESS"
  shows "releases (since w (snd (com_google_MacPmem_start env w))) =
           cleanup_releases (snd (com_google_MacPmem_start env w))"
proof -
  let ?w' = "snd (com_google_MacPmem_start env w)"
  from assms(1) obtain wk e evs where
    run: "com_google_MacPmem_start env w = pmem_cleanup env e wk"
    and tr: "trace wk = trace w @ evs" and rel: "releases evs = []"
    by (rule start_failure)
  have h: "handles.truncate ?w' = handles.truncate wk"
    by (simp add: run pmem_cleanup_handles)
  have "releases (since w ?w') = cleanup_releases wk"
    by (simp add: start_failure_since [OF run tr] releases_append rel releases_cleanup_events)
  also have "\<dots> = cleanup_releases ?w'"
    by (rule cleanup_releases_cong [OF h [symmetric]])
  finally show ?thesis .
qed

lemma start_failure_acquisitions:
  assumes "fst (com_google_MacPmem_start env w) \<noteq> KERN_SUCCESS"
  shows "\<exists>inits.
      acquisitions (since w (snd (com_google_MacPmem_start env w))) =
        acquisitions (since (pmem_info ''Loaded MacPmem.'' [] w)
                        (snd (pmem_init env (pmem_info ''Loaded MacPmem.'' [] w)))) @ inits \<and>
      (inits = [] \<or> inits = [Rel_meta]) \<and>
      handles.truncate (snd (com_google_MacPmem_start env w)) =
        handles.truncate (snd (pmem_init env (pmem_info ''Loaded MacPmem.'' [] w)))"
proof -
  let ?w1 = "pmem_info ''Loaded MacPmem.'' [] w"
  let ?s = "fst (pmem_init env ?w1)"
  let ?w2 = "snd (pmem_init env ?w1)"
  let ?w' = "snd (com_google_MacPmem_start env w)"
  obtain ei where ei: "trace ?w2 = trace ?w1 @ ei"
    using pmem_init_trace by blast
  have ei_since: "since ?w1 ?w2 = ei"
    by (rule since_trace [OF ei])
  have tr1: "trace ?w1 = trace w @ [Pmem_log Info ''Loaded MacPmem.'' []]"
    by (simp add: pmem_info_def emit_def)
  have "\<exists>inits.
      acquisitions (since w ?w') = acquisitions ei @ inits \<and>
      (inits = [] \<or> inits = [Rel_meta]) \<and> handles.truncate ?w' = handles.truncate ?w2"
  proof (cases "?s = KERN_SUCCESS")
    case False
    let ?wk = "pmem_fatal ''pmem_init() failed.'' [] ?w2"
    let ?evs = "Pmem_log Info ''Loaded MacPmem.'' [] # ei @
      [Pmem_log Fatal ''pmem_init() failed.'' []]"
    have run: "com_google_MacPmem_start env w = pmem_cleanup env ?s ?wk"
      using False by (simp add: com_google_MacPmem_start_def Let_def case_prod_beta)
    have tr: "trace ?wk = trace w @ ?evs"
      by (simp add: pmem_fatal_def emit_def ei tr1)
    have "acquisitions (since w ?w') = acquisitions ei @ []"
      by (simp add: start_failure_since [OF run tr] acquisitions_append acquisitions_Cons
          acquisitions_Nil acquisitions_cleanup_events acquired_of_def)
    moreover have "handles.truncate ?w' = handles.truncate ?w2"
      by (simp add: run pmem_cleanup_handles)
         (simp add: pmem_fatal_def emit_def handles.truncate_def)
    ultimately show ?thesis by blast
  next
    case True
    let ?m = "pmem_meta_init env (length (trace ?w2))"
    let ?w3 = "emit (Pmem_meta_init ?m) ?w2"
    show ?thesis
    proof (cases "?m = KERN_SUCCESS")
      case False
      let ?wk = "pmem_fatal ''Could not initialize pmem meta.'' [] ?w3"
      let ?evs = "Pmem_log Info ''Loaded MacPmem.'' [] # ei @
        [Pmem_meta_init ?m, Pmem_log Fatal ''Could not initialize pmem meta.'' []]"
      have run: "com_google_MacPmem_start env w = pmem_cleanup env ?m ?wk"
        using True False by (simp add: com_google_MacPmem_start_def Let_def case_prod_beta)
      have tr: "trace ?wk = trace w @ ?evs"
        by (simp add: pmem_fatal_def emit_def ei tr1)
      have "acquisitions (since w ?w') = acquisitions ei @ []"
        using False
        by (simp add: start_failure_since [OF run tr] acquisitions_append acquisitions_Cons
            acquisitions_Nil acquisitions_cleanup_events acquired_of_def)
      moreover have "handles.truncate ?w' = handles.truncate ?w2"
        by (simp add: run pmem_cleanup_handles)
           (simp add: pmem_fatal_def emit_def handles.truncate_def)
      ultimately show ?thesis by blast
    next
      case meta: True
      let ?p = "pmem_pte_init env (length (trace ?w3))"
      let ?w4 = "emit (Pmem_pte_init ?p) ?w3"
      have p: "?p \<noteq> KERN_SUCCESS"
        using assms(1) True meta
        by (simp add: com_google_MacPmem_start_def Let_def case_prod_beta split: if_splits)
      let ?wk = "pmem_fatal ''Could not initialize PTE mmap module.'' [] ?w4"
      let ?evs = "Pmem_log Info ''Loaded MacPmem.'' [] # ei @
        [Pmem_meta_init ?m, Pmem_pte_init ?p,
         Pmem_log Fatal ''Could not initialize PTE mmap module.'' []]"
      have run: "com_google_MacPmem_start env w = pmem_cleanup env ?p ?wk"
        using True meta p by (simp add: com_google_MacPmem_start_def Let_def case_prod_beta)
      have tr: "trace ?wk = trace w @ ?evs"
        by (simp add: pmem_fatal_def emit_def ei tr1)
      have "acquisitions (since w ?w') = acquisitions ei @ [Rel_meta]"
        using meta p
        by (simp add: start_failure_since [OF run tr] acquisitions_append acquisitions_Cons
            acquisitions_Nil acquisitions_cleanup_events acquired_of_def)
      moreover have "handles.truncate ?w' = handles.truncate ?w2"
        by (simp add: run pmem_cleanup_handles)
           (simp add: pmem_fatal_def emit_def handles.truncate_def)
      ultimately show ?thesis by blast
    qed
  qed
  then show ?thesis by (simp add: ei_since)
qed

text \<open>A start that succeeds has run all the steps and released nothing.\<close>

lemma start_success_shape:
  assumes "fst (com_google_MacPmem_start env w) = KERN_SUCCESS"
  obtains ei where
    "since w (snd (com_google_MacPmem_start env w)) =
       Pmem_log Info ''Loaded MacPmem.'' [] # ei @
       [Pmem_meta_init KERN_SUCCESS, Pmem_pte_init KERN_SUCCESS, Sysctl_register_oid]"
    and "first_error ei = None" and "releases ei = []"
proof -
  let ?w1 = "pmem_info ''Loaded MacPmem.'' [] w"
  let ?s = "fst (pmem_init env ?w1)"
  let ?w2 = "snd (pmem_init env ?w1)"
  let ?m = "pmem_meta_init env (length (trace ?w2))"
  let ?w3 = "emit (Pmem_meta_init ?m) ?w2"
  let ?p = "pmem_pte_init env (length (trace ?w3))"
  obtain ei where ei: "trace ?w2 = trace ?w1 @ ei"
    using pmem_init_trace by blast
  have ei_since: "since ?w1 ?w2 = ei"
    by (rule since_trace [OF ei])
  have err_ei: "first_error ei = (if ?s = KERN_SUCCESS then None else Some KERN_FAILURE)"
    using pmem_init_first_error [of ?w1 env] by (simp add: ei_since)
  have rel_ei: "releases ei = []"
    using pmem_init_releases [of ?w1 env] by (simp add: ei_since)
  have tr1: "trace ?w1 = trace w @ [Pmem_log Info ''Loaded MacPmem.'' []]"
    by (simp add: pmem_info_def emit_def)
  have s: "?s = KERN_SUCCESS"
    using assms cleanup_keeps_failure
    by (auto simp add: com_google_MacPmem_start_def Let_def case_prod_beta split: if_splits)
  have m: "?m = KERN_SUCCESS"
    using assms s cleanup_keeps_failure
    by (auto simp add: com_google_MacPmem_start_def Let_def case_prod_beta split: if_splits)
  have p: "?p = KERN_SUCCESS"
    using assms s m cleanup_keeps_failure
    by (auto simp add: com_google_MacPmem_start_def Let_def case_prod_beta split: if_splits)
  have "trace (snd (com_google_MacPmem_start env w)) =
      trace w @ (Pmem_log Info ''Loaded MacPmem.'' [] # ei @
        [Pmem_meta_init KERN_SUCCESS, Pmem_pte_init KERN_SUCCESS, Sysctl_register_oid])"
    using s m p by (simp add: com_google_MacPmem_start_def Let_def case_prod_beta emit_def ei tr1)
  then have "since w (snd (com_google_MacPmem_start env w)) =
      Pmem_log Info ''Loaded MacPmem.'' [] # ei @
        [Pmem_meta_init KERN_SUCCESS, Pmem_pte_init KERN_SUCCESS, Sysctl_register_oid]"
    by (rule since_trace)
  moreover have "first_error ei = None" using s by (simp add: err_ei)
  ultimately show ?thesis using that rel_ei by blast
qed

subsection \<open>Every run of the rollback routine\<close>

lemma rollback_shape:
  assumes "w' = snd (pmem_cleanup env e w) \<or> w' = snd (com_google_MacPmem_stop env w) \<or>
           w' = snd (com_google_MacPmem_start env w)"
  shows "releases (since w w') = [] \<or>
         (\<exists>evs wk. since w w' = evs @ cleanup_events env wk \<and> releases evs = [] \<and>
            handles.truncate wk = handles.truncate w')"
  using assms
proof (elim disjE)
  assume w': "w' = snd (pmem_cleanup env e w)"
  have "since w w' = [] @ cleanup_events env w \<and> releases [] = [] \<and>
      handles.truncate w = handles.truncate w'"
    by (simp add: w' pmem_cleanup_since pmem_cleanup_handles releases_Nil)
  then show ?thesis by blast
next
  assume w': "w' = snd (com_google_MacPmem_stop env w)"
  let ?wk = "emit (Pmem_log Info ''Unloading MacPmem'' []) w"
  have "since w w' = [Pmem_log Info ''Unloading MacPmem'' []] @ cleanup_events env ?wk \<and>
      releases [Pmem_log Info ''Unloading MacPmem'' []] = [] \<and>
      handles.truncate ?wk = handles.truncate w'"
    by (simp add: w' stop_eq since_extend releases_Cons releases_Nil release_of_def
        handles.truncate_def emit_def)
  then show ?thesis by blast
next
  assume w': "w' = snd (com_google_MacPmem_start env w)"
  show ?thesis
  proof (cases "fst (com_google_MacPmem_start env w) = KERN_SUCCESS")
    case True
    then obtain ei where
      "since w w' = Pmem_log Info ''Loaded MacPmem.'' [] # ei @
         [Pmem_meta_init KERN_SUCCESS, Pmem_pte_init KERN_SUCCESS, Sysctl_register_oid]"
      and "releases ei = []"
      unfolding w' by (rule start_success_shape)
    then have "releases (since w w') = []"
      by (simp add: releases_Cons releases_append releases_Nil release_of_def)
    then show ?thesis by blast
  next
    case False
    then obtain wk e' evs where
      run: "com_google_MacPmem_start env w = pmem_cleanup env e' wk"
      and tr: "trace wk = trace w @ evs" and rel: "releases evs = []"
      by (rule start_failure)
    have "since w w' = evs @ cleanup_events env wk"
      unfolding w' by (rule start_failure_since [OF run tr])
    moreover have "handles.truncate wk = handles.truncate w'"
      by (simp add: w' run pmem_cleanup_handles)
    ultimately show ?thesis using rel by blast
  qed
qed

lemma removal_order:
  assumes "evs @ cleanup_events env wk = pre @ Cdevsw_remove m r # post" and "releases evs = []"
  shows "(\<forall>p. Devfs_remove p \<notin> set post) \<and> set (node_events wk) \<subseteq> set pre"
proof -
  have "Cdevsw_remove m r \<notin> set evs"
    by (rule releases_Nil_not_mem [OF assms(2)]) (simp add: release_of_def)
  then have notin: "Cdevsw_remove m r \<notin> set (evs @ node_events wk)"
    by (simp add: node_events_def)
  from assms(1) have
    "pre @ Cdevsw_remove m r # post = (evs @ node_events wk) @ (major_events env wk @ tail_events wk)"
    by (simp add: cleanup_events_def)
  from split_after [OF this notin] obtain us where pre: "pre = (evs @ node_events wk) @ us"
    and rest: "us @ Cdevsw_remove m r # post = major_events env wk @ tail_events wk"
    by blast
  have "set post \<subseteq> set (major_events env wk @ tail_events wk)"
    unfolding rest [symmetric] by auto
  moreover have "\<And>p. Devfs_remove p \<notin> set (major_events env wk @ tail_events wk)"
    by (simp add: major_events_def tail_events_def)
  ultimately have "\<forall>p. Devfs_remove p \<notin> set post"
    by blast
  then show ?thesis by (auto simp add: pre)
qed

subsection \<open>Concrete runs\<close>

lemmas run_simps = com_google_MacPmem_start_def com_google_MacPmem_stop_def pmem_init_def
  Let_def initial_def log_defs const_defs emit_def word_sless_alt pmem_cleanup_eq
  cleanup_closed_defs

lemmas read_simps = trace_initial since_def releases_append releases_Cons releases_Nil release_of_def
  first_error_append first_error_Cons first_error_Nil failure_of_def echo_failed_def

lemma run_ok:
  "com_google_MacPmem_start host_ok (initial host_ok) =
     (KERN_SUCCESS,
      running\<lparr>trace := ok_load_events @ [Pmem_meta_init 0, Pmem_pte_init 0, Sysctl_register_oid]\<rparr>)"
  by (simp add: run_simps host_ok_def running_def ok_load_events_def)

lemma loaded_eq:
  "loaded =
     running\<lparr>trace := ok_load_events @ [Pmem_meta_init 0, Pmem_pte_init 0, Sysctl_register_oid]\<rparr>"
  by (simp add: loaded_def run_ok)

lemma run_pte_fails:
  "com_google_MacPmem_start host_pte_fails (initial host_pte_fails) =
     (KERN_FAILURE,
      running\<lparr>pmem_sysctl_needs_cleanup := 0,
        trace := ok_load_events @
          [Pmem_meta_init 0, Pmem_pte_init 5,
           Pmem_log Fatal ''Could not initialize PTE mmap module.'' [],
           Devfs_remove 0x42, Devfs_remove 0x41, Cdevsw_remove 17 17, OSMalloc_Tagfree 0x10,
           Pmem_meta_cleanup, Pmem_pte_cleanup, Lck_grp_attr_free 0x22, Lck_grp_free 0x32,
           Lck_grp_attr_free 0x21, Lck_grp_free 0x31]\<rparr>)"
  by (simp add: run_simps host_pte_fails_def host_ok_def running_def ok_load_events_def)

lemma run_meta_fails:
  "com_google_MacPmem_start host_meta_fails (initial host_meta_fails) =
     (3,
      running\<lparr>pmem_sysctl_needs_cleanup := 0,
        trace := ok_load_events @
          [Pmem_meta_init 3, Pmem_log Fatal ''Could not initialize pmem meta.'' [],
           Devfs_remove 0x42, Devfs_remove 0x41, Cdevsw_remove 17 17, OSMalloc_Tagfree 0x10,
           Pmem_meta_cleanup, Pmem_pte_cleanup, Lck_grp_attr_free 0x22, Lck_grp_free 0x32,
           Lck_grp_attr_free 0x21, Lck_grp_free 0x31]\<rparr>)"
  by (simp add: run_simps host_meta_fails_def host_ok_def running_def ok_load_events_def)

lemma run_meta_fails_no_echo:
  "com_google_MacPmem_start host_meta_fails_no_echo (initial host_meta_fails_no_echo) =
     (KERN_FAILURE,
      running\<lparr>pmem_sysctl_needs_cleanup := 0,
        trace := ok_load_events @
          [Pmem_meta_init 3, Pmem_log Fatal ''Could not initialize pmem meta.'' [],
           Devfs_remove 0x42, Devfs_remove 0x41, Cdevsw_remove 17 (- 1),
           Pmem_log Error
             ''Failed to remove cdevsw! Major number is %d, but cdevsw_remove() returned %d.''
             [Num 17, Num (- 1)],
           OSMalloc_Tagfree 0x10,
           Pmem_meta_cleanup, Pmem_pte_cleanup, Lck_grp_attr_free 0x22, Lck_grp_free 0x32,
           Lck_grp_attr_free 0x21, Lck_grp_free 0x31]\<rparr>)"
  by (simp add: run_simps host_meta_fails_no_echo_def host_ok_def running_def ok_load_events_def)

lemma run_major_zero:
  "com_google_MacPmem_start host_major_zero (initial host_major_zero) =
     (KERN_SUCCESS,
      running\<lparr>pmem_majorno := 0,
        trace :=
          [Pmem_log Info ''Loaded MacPmem.'' [], OSMalloc_Tagalloc ''pmem_tag'' 0x10,
           Lck_grp_attr_alloc_init 0x21, Lck_grp_attr_setstat 0x21,
           Lck_grp_alloc_init ''pmem_rwlock'' 0x21 0x31,
           Lck_grp_attr_alloc_init 0x22, Lck_grp_attr_setstat 0x22,
           Lck_grp_alloc_init ''pmem_mutex'' 0x22 0x32,
           Cdevsw_add (- 1) 0, Pmem_log Debug ''Major number is %d.'' [Num 0],
           Devfs_make_node 2 432 ''pmem_info'' 0x41,
           Pmem_log Info ''/dev/%s created for the info device.'' [Str ''pmem_info''],
           Devfs_make_node 1 432 ''pmem'' 0x42,
           Pmem_log Info ''/dev/%s created for the physical memory device.'' [Str ''pmem''],
           Pmem_meta_init 0, Pmem_pte_init 0, Sysctl_register_oid]\<rparr>)"
  by (simp add: run_simps host_major_zero_def host_ok_def running_def)

lemma run_no_lock_groups:
  "com_google_MacPmem_start host_no_lock_groups (initial host_no_lock_groups) =
     (KERN_SUCCESS,
      running\<lparr>pmem_rwlock_grp := 0, pmem_rwlock_grp_attr := 0, pmem_mutex_grp := 0,
        pmem_mutex_grp_attr := 0,
        trace :=
          [Pmem_log Info ''Loaded MacPmem.'' [], OSMalloc_Tagalloc ''pmem_tag'' 0x10,
           Lck_grp_attr_alloc_init 0, Lck_grp_attr_setstat 0,
           Lck_grp_alloc_init ''pmem_rwlock'' 0 0,
           Lck_grp_attr_alloc_init 0, Lck_grp_attr_setstat 0,
           Lck_grp_alloc_init ''pmem_mutex'' 0 0,
           Cdevsw_add (- 1) 17, Pmem_log Debug ''Major number is %d.'' [Num 17],
           Devfs_make_node 0x11000002 432 ''pmem_info'' 0x41,
           Pmem_log Info ''/dev/%s created for the info device.'' [Str ''pmem_info''],
           Devfs_make_node 0x11000001 432 ''pmem'' 0x42,
           Pmem_log Info ''/dev/%s created for the physical memory device.'' [Str ''pmem''],
           Pmem_meta_init 0, Pmem_pte_init 0, Sysctl_register_oid]\<rparr>)"
  by (simp add: run_simps host_no_lock_groups_def host_ok_def running_def)

section \<open>The rollback routine run twice\<close>

text \<open>
  C1, as the code has it. \<open>pmem_cleanup\<close> writes no handle variable: after one run, and after
  a second run that follows it directly, every variable holds the value it had before. The
  second run is therefore no different from the first: it hands the same handles to the same
  release routines in the same order.
\<close>

theorem pmem_cleanup_repeats:
  "handles.truncate (snd (pmem_cleanup env e w)) = handles.truncate w \<and>
   handles.truncate (snd (pmem_cleanup env e' (snd (pmem_cleanup env e w)))) =
     handles.truncate w \<and>
   releases (since (snd (pmem_cleanup env e w))
               (snd (pmem_cleanup env e' (snd (pmem_cleanup env e w))))) =
     releases (since w (snd (pmem_cleanup env e w)))"
proof -
  let ?w1 = "snd (pmem_cleanup env e w)"
  have h: "handles.truncate ?w1 = handles.truncate w"
    by (rule pmem_cleanup_handles)
  have "releases (since ?w1 (snd (pmem_cleanup env e' ?w1))) = cleanup_releases ?w1"
    by (rule pmem_cleanup_releases)
  also have "\<dots> = cleanup_releases w"
    by (rule cleanup_releases_cong [OF h])
  also have "\<dots> = releases (since w ?w1)"
    by (rule pmem_cleanup_releases [symmetric])
  finally show ?thesis
    using h by (simp add: pmem_cleanup_handles)
qed

text \<open>
  C1 as stated fails. On the world a successful start leaves, the second of two runs in a
  row is not a no-op: the world after it differs from the world after the first, and it
  removes both nodes, deregisters the major number, frees the tag, unregisters the sysctl
  and frees the lock groups, each of which the first run has already given back.
\<close>

theorem pmem_cleanup_twice_counterexample:
  "snd (pmem_cleanup host_ok KERN_SUCCESS (snd (pmem_cleanup host_ok KERN_SUCCESS loaded)))
     \<noteq> snd (pmem_cleanup host_ok KERN_SUCCESS loaded) \<and>
   releases (since loaded (snd (pmem_cleanup host_ok KERN_SUCCESS loaded))) =
     [Rel_node 0x42, Rel_node 0x41, Rel_major 17, Rel_tag 0x10, Rel_meta, Rel_pte, Rel_sysctl,
      Rel_grp_attr 0x22, Rel_grp 0x32, Rel_grp_attr 0x21, Rel_grp 0x31] \<and>
   releases (since (snd (pmem_cleanup host_ok KERN_SUCCESS loaded))
               (snd (pmem_cleanup host_ok KERN_SUCCESS
                      (snd (pmem_cleanup host_ok KERN_SUCCESS loaded))))) =
     [Rel_node 0x42, Rel_node 0x41, Rel_major 17, Rel_tag 0x10, Rel_meta, Rel_pte, Rel_sysctl,
      Rel_grp_attr 0x22, Rel_grp 0x32, Rel_grp_attr 0x21, Rel_grp 0x31]"
  by (simp add: loaded_eq ok_load_events_def pmem_cleanup_eq since_def releases_append
      releases_Cons releases_Nil release_of_def cleanup_closed_defs running_def host_ok_def
      word_sless_alt)

section \<open>What a failed start releases\<close>

text \<open>
  C2, as the code has it. When a start fails, whatever the steps before the failing one have
  acquired is released before the start returns. For a start entered with both node handles
  null and the sysctl flag clear, the releases are exactly these: the nodes in the reverse
  of the order in which they were made, then the major number, then the tag, then the
  clean-up of the metadata collaborator and of the page-table collaborator, both whether or
  not they were initialised, then the lock groups in the reverse of the order in which they
  were allocated, the attribute of each before the group. So nodes, major number and lock
  groups go in the reverse of the order of their acquisition, and the collaborators, though
  acquired last, are cleaned after the nodes and the major number. What the allocations of
  the lock groups returned is freed null or not. The case of major number 0 is left aside.
\<close>

theorem start_failure_releases:
  assumes "fst (com_google_MacPmem_start env w) \<noteq> KERN_SUCCESS"
    and "pmem_majorno (snd (com_google_MacPmem_start env w)) \<noteq> 0"
  shows "set (acquisitions (since w (snd (com_google_MacPmem_start env w)))) \<subseteq>
           set (releases (since w (snd (com_google_MacPmem_start env w)))) \<and>
         (pmem_infonode w = 0 \<and> pmem_devnode w = 0 \<and> pmem_sysctl_needs_cleanup w = 0 \<longrightarrow>
            (\<exists>tag grps major nodes inits.
               acquisitions (since w (snd (com_google_MacPmem_start env w))) =
                 map Rel_tag tag @ concat (map (\<lambda>(a, g). [Rel_grp_attr a, Rel_grp g]) grps) @
                 map Rel_major major @ map Rel_node nodes @ inits \<and>
               (inits = [] \<or> inits = [Rel_meta]) \<and>
               releases (since w (snd (com_google_MacPmem_start env w))) =
                 map Rel_node (rev nodes) @ map Rel_major (rev major) @ map Rel_tag tag @
                 [Rel_meta, Rel_pte] @
                 concat (map (\<lambda>(a, g). [Rel_grp_attr a, Rel_grp g]) (rev grps))))"
proof (intro conjI impI)
  let ?w1 = "pmem_info ''Loaded MacPmem.'' [] w"
  let ?w2 = "snd (pmem_init env ?w1)"
  let ?w' = "snd (com_google_MacPmem_start env w)"
  from start_failure_acquisitions [OF assms(1)] obtain inits where
    acq: "acquisitions (since w ?w') = acquisitions (since ?w1 ?w2) @ inits"
    and inits: "inits = [] \<or> inits = [Rel_meta]"
    and h: "handles.truncate ?w' = handles.truncate ?w2"
    by blast
  have rel: "releases (since w ?w') = cleanup_releases ?w'"
    by (rule start_failure_releases_by_handles [OF assms(1)])
  have same: "acquired_by_handles ?w2 = acquired_by_handles ?w'"
    by (rule acquired_by_handles_cong [OF h [symmetric]])
  show "set (acquisitions (since w ?w')) \<subseteq> set (releases (since w ?w'))"
  proof -
    have "set (acquisitions (since ?w1 ?w2)) \<subseteq> set (acquired_by_handles ?w')"
      using pmem_init_acquired_subset [of ?w1 env] by (simp add: same)
    also have "\<dots> \<subseteq> set (cleanup_releases ?w')"
      by (rule acquired_by_handles_released [OF assms(2)])
    finally have "set (acquisitions (since ?w1 ?w2)) \<subseteq> set (releases (since w ?w'))"
      by (simp add: rel)
    moreover have "set inits \<subseteq> set (releases (since w ?w'))"
      using inits by (auto simp add: rel cleanup_releases_def)
    ultimately show ?thesis by (simp add: acq)
  qed
  assume "pmem_infonode w = 0 \<and> pmem_devnode w = 0 \<and> pmem_sysctl_needs_cleanup w = 0"
  then have info: "pmem_infonode ?w1 = 0" and dev: "pmem_devnode ?w1 = 0"
    and flag: "pmem_sysctl_needs_cleanup ?w' = 0"
    using truncate_sysctl [OF h] by (simp_all add: pmem_init_sysctl pmem_info_def emit_def)
  let ?tag = "if pmem_tag ?w' \<noteq> 0 then [pmem_tag ?w'] else []"
  let ?grps = "[(pmem_rwlock_grp_attr ?w', pmem_rwlock_grp ?w'),
                (pmem_mutex_grp_attr ?w', pmem_mutex_grp ?w')]"
  let ?major = "if 0 \<le>s pmem_majorno ?w' then [pmem_majorno ?w'] else []"
  let ?nodes = "(if pmem_infonode ?w' \<noteq> 0 then [pmem_infonode ?w'] else []) @
                (if pmem_devnode ?w' \<noteq> 0 then [pmem_devnode ?w'] else [])"
  have "acquisitions (since ?w1 ?w2) = acquired_by_handles ?w'"
    using pmem_init_acquisitions [where env = env, OF info dev] by (simp add: same)
  then have a: "acquisitions (since w ?w') =
      map Rel_tag ?tag @ concat (map (\<lambda>(a, g). [Rel_grp_attr a, Rel_grp g]) ?grps) @
      map Rel_major ?major @ map Rel_node ?nodes @ inits"
    by (simp add: acq acquired_by_handles_def)
  have r: "releases (since w ?w') =
      map Rel_node (rev ?nodes) @ map Rel_major (rev ?major) @ map Rel_tag ?tag @
      [Rel_meta, Rel_pte] @
      concat (map (\<lambda>(a, g). [Rel_grp_attr a, Rel_grp g]) (rev ?grps))"
    using assms(2) flag by (simp add: rel cleanup_releases_def positive_iff)
  from a r inits show "\<exists>tag grps major nodes inits.
      acquisitions (since w ?w') =
        map Rel_tag tag @ concat (map (\<lambda>(a, g). [Rel_grp_attr a, Rel_grp g]) grps) @
        map Rel_major major @ map Rel_node nodes @ inits \<and>
      (inits = [] \<or> inits = [Rel_meta]) \<and>
      releases (since w ?w') =
        map Rel_node (rev nodes) @ map Rel_major (rev major) @ map Rel_tag tag @
        [Rel_meta, Rel_pte] @
        concat (map (\<lambda>(a, g). [Rel_grp_attr a, Rel_grp g]) (rev grps))"
    by blast
qed

text \<open>
  C2 at a concrete input: on \<open>host_pte_fails\<close> the start, entered in the initial state, fails
  with major number 17 registered; its acquisitions and its releases are as the theorem
  says.
\<close>

theorem start_failure_releases_witness:
  "fst (com_google_MacPmem_start host_pte_fails (initial host_pte_fails)) \<noteq> KERN_SUCCESS \<and>
   pmem_majorno (snd (com_google_MacPmem_start host_pte_fails (initial host_pte_fails))) \<noteq> 0 \<and>
   pmem_infonode (initial host_pte_fails) = 0 \<and>
   pmem_devnode (initial host_pte_fails) = 0 \<and>
   pmem_sysctl_needs_cleanup (initial host_pte_fails) = 0 \<and>
   acquisitions (since (initial host_pte_fails)
                   (snd (com_google_MacPmem_start host_pte_fails (initial host_pte_fails)))) =
     [Rel_tag 0x10, Rel_grp_attr 0x21, Rel_grp 0x31, Rel_grp_attr 0x22, Rel_grp 0x32,
      Rel_major 17, Rel_node 0x41, Rel_node 0x42, Rel_meta] \<and>
   releases (since (initial host_pte_fails)
               (snd (com_google_MacPmem_start host_pte_fails (initial host_pte_fails)))) =
     [Rel_node 0x42, Rel_node 0x41, Rel_major 17, Rel_tag 0x10, Rel_meta, Rel_pte,
      Rel_grp_attr 0x22, Rel_grp 0x32, Rel_grp_attr 0x21, Rel_grp 0x31] \<and>
   set (acquisitions (since (initial host_pte_fails)
                   (snd (com_google_MacPmem_start host_pte_fails (initial host_pte_fails))))) \<subseteq>
   set (releases (since (initial host_pte_fails)
               (snd (com_google_MacPmem_start host_pte_fails (initial host_pte_fails)))))"
proof -
  have a: "fst (com_google_MacPmem_start host_pte_fails (initial host_pte_fails)) \<noteq> KERN_SUCCESS"
    by (simp add: run_pte_fails const_defs)
  have b: "pmem_majorno (snd (com_google_MacPmem_start host_pte_fails (initial host_pte_fails))) \<noteq> 0"
    by (simp add: run_pte_fails running_def)
  have c: "pmem_infonode (initial host_pte_fails) = 0 \<and> pmem_devnode (initial host_pte_fails) = 0 \<and>
      pmem_sysctl_needs_cleanup (initial host_pte_fails) = 0"
    by (simp add: initial_def)
  have acq: "acquisitions (since (initial host_pte_fails)
                   (snd (com_google_MacPmem_start host_pte_fails (initial host_pte_fails)))) =
     [Rel_tag 0x10, Rel_grp_attr 0x21, Rel_grp 0x31, Rel_grp_attr 0x22, Rel_grp 0x32,
      Rel_major 17, Rel_node 0x41, Rel_node 0x42, Rel_meta]"
    by (simp add: run_pte_fails running_def ok_load_events_def read_simps const_defs
        acquisitions_append acquisitions_Cons acquisitions_Nil acquired_of_def word_sle_eq)
  have rel: "releases (since (initial host_pte_fails)
               (snd (com_google_MacPmem_start host_pte_fails (initial host_pte_fails)))) =
     [Rel_node 0x42, Rel_node 0x41, Rel_major 17, Rel_tag 0x10, Rel_meta, Rel_pte,
      Rel_grp_attr 0x22, Rel_grp 0x32, Rel_grp_attr 0x21, Rel_grp 0x31]"
    by (simp add: run_pte_fails running_def ok_load_events_def read_simps const_defs)
  from start_failure_releases [OF a b]
  have "set (acquisitions (since (initial host_pte_fails)
                   (snd (com_google_MacPmem_start host_pte_fails (initial host_pte_fails))))) \<subseteq>
   set (releases (since (initial host_pte_fails)
               (snd (com_google_MacPmem_start host_pte_fails (initial host_pte_fails)))))"
    by blast
  with a b c acq rel show ?thesis by blast
qed

text \<open>
  C2 as stated fails. On \<open>host_pte_fails\<close> the start fails at step 6. The specification's
  sentence asks for the releases of steps 5, 4, 3, 2, 1 in this order; the code cleans the
  metadata collaborator (step 5) after the nodes and the major number, and also calls the
  clean-up of the page-table collaborator, whose initialisation is the step that failed.
\<close>

theorem start_rollback_order_counterexample:
  "first_error (since (initial host_pte_fails)
       (snd (com_google_MacPmem_start host_pte_fails (initial host_pte_fails)))) = Some KERN_FAILURE \<and>
   Pmem_pte_init KERN_FAILURE \<in> set (since (initial host_pte_fails)
       (snd (com_google_MacPmem_start host_pte_fails (initial host_pte_fails)))) \<and>
   releases (since (initial host_pte_fails)
       (snd (com_google_MacPmem_start host_pte_fails (initial host_pte_fails)))) =
     [Rel_node 0x42, Rel_node 0x41, Rel_major 17, Rel_tag 0x10, Rel_meta, Rel_pte,
      Rel_grp_attr 0x22, Rel_grp 0x32, Rel_grp_attr 0x21, Rel_grp 0x31] \<and>
   spec_rollback 6 (snd (com_google_MacPmem_start host_pte_fails (initial host_pte_fails))) =
     [Rel_meta, Rel_node 0x42, Rel_node 0x41, Rel_major 17,
      Rel_grp_attr 0x22, Rel_grp 0x32, Rel_grp_attr 0x21, Rel_grp 0x31] \<and>
   releases (since (initial host_pte_fails)
       (snd (com_google_MacPmem_start host_pte_fails (initial host_pte_fails)))) \<noteq>
     spec_rollback 6 (snd (com_google_MacPmem_start host_pte_fails (initial host_pte_fails)))"
  by (simp add: run_pte_fails running_def ok_load_events_def read_simps const_defs
      spec_rollback_def spec_release_def upt_rec)

section \<open>The error a failed start reports\<close>

text \<open>
  C3, as the code has it. \<open>pmem_cleanup\<close> returns the error it is given unless a
  deregistration returns a number other than the one registered; then it returns
  \<open>KERN_FAILURE\<close>, whatever it was given. A start that fails returns the error of the first
  step that failed, with the same exception.
\<close>

theorem first_error_reported:
  "fst (pmem_cleanup env e w) =
     (if echo_failed (since w (snd (pmem_cleanup env e w))) then KERN_FAILURE else e) \<and>
   (fst (com_google_MacPmem_start env w) \<noteq> KERN_SUCCESS \<longrightarrow>
      (\<exists>e. first_error (since w (snd (com_google_MacPmem_start env w))) = Some e \<and>
           e \<noteq> KERN_SUCCESS \<and>
           fst (com_google_MacPmem_start env w) =
             (if echo_failed (since w (snd (com_google_MacPmem_start env w))) then KERN_FAILURE
              else e)))"
proof (intro conjI impI)
  show "fst (pmem_cleanup env e w) =
     (if echo_failed (since w (snd (pmem_cleanup env e w))) then KERN_FAILURE else e)"
    by (simp add: pmem_cleanup_since echo_failed_cleanup_events) (simp add: pmem_cleanup_eq cleanup_status_def)
next
  assume "fst (com_google_MacPmem_start env w) \<noteq> KERN_SUCCESS"
  then obtain wk e evs where
    run: "com_google_MacPmem_start env w = pmem_cleanup env e wk"
    and tr: "trace wk = trace w @ evs" and rel: "releases evs = []"
    and err: "first_error evs = Some e" and e: "e \<noteq> KERN_SUCCESS"
    by (rule start_failure)
  have ev: "since w (snd (com_google_MacPmem_start env w)) = evs @ cleanup_events env wk"
    by (rule start_failure_since [OF run tr])
  have "first_error (since w (snd (com_google_MacPmem_start env w))) = Some e"
    by (simp add: ev first_error_append err)
  moreover have "fst (com_google_MacPmem_start env w) =
      (if echo_failed (since w (snd (com_google_MacPmem_start env w))) then KERN_FAILURE else e)"
    by (simp add: ev echo_failed_append releases_Nil_no_echo [OF rel] echo_failed_cleanup_events)
       (simp add: run pmem_cleanup_eq cleanup_status_def)
  ultimately show "\<exists>e. first_error (since w (snd (com_google_MacPmem_start env w))) = Some e \<and>
           e \<noteq> KERN_SUCCESS \<and>
           fst (com_google_MacPmem_start env w) =
             (if echo_failed (since w (snd (com_google_MacPmem_start env w))) then KERN_FAILURE
              else e)"
    using e by blast
qed

text \<open>
  C3 at a concrete input: on \<open>host_meta_fails\<close> the metadata collaborator fails with status
  3, deregistration echoes the major number, and the start returns 3.
\<close>

theorem first_error_reported_witness:
  "fst (com_google_MacPmem_start host_meta_fails (initial host_meta_fails)) = 3 \<and>
   (3 :: kern_return_t) \<noteq> KERN_SUCCESS \<and>
   first_error (since (initial host_meta_fails)
      (snd (com_google_MacPmem_start host_meta_fails (initial host_meta_fails)))) = Some 3 \<and>
   \<not> echo_failed (since (initial host_meta_fails)
      (snd (com_google_MacPmem_start host_meta_fails (initial host_meta_fails))))"
proof -
  have a: "fst (com_google_MacPmem_start host_meta_fails (initial host_meta_fails)) \<noteq> KERN_SUCCESS"
    by (simp add: run_meta_fails const_defs)
  have b: "\<not> echo_failed (since (initial host_meta_fails)
      (snd (com_google_MacPmem_start host_meta_fails (initial host_meta_fails))))"
    by (simp add: run_meta_fails running_def ok_load_events_def read_simps)
  from first_error_reported [of host_meta_fails 0 "initial host_meta_fails"] a b
  have "\<exists>e. first_error (since (initial host_meta_fails)
      (snd (com_google_MacPmem_start host_meta_fails (initial host_meta_fails)))) = Some e \<and>
      e \<noteq> KERN_SUCCESS \<and> fst (com_google_MacPmem_start host_meta_fails (initial host_meta_fails)) = e"
    by simp
  then show ?thesis using b by (auto simp add: run_meta_fails)
qed

text \<open>
  C3 as stated fails. Where deregistration does not echo the major number, \<open>pmem_cleanup\<close>
  called with the non-success status 3 returns \<open>KERN_FAILURE\<close>, and a start whose metadata
  collaborator fails with status 3 returns \<open>KERN_FAILURE\<close> and not 3.
\<close>

theorem prior_error_overwritten_counterexample:
  "(3 :: kern_return_t) \<noteq> KERN_SUCCESS \<and>
   fst (pmem_cleanup host_no_echo 3 running) = KERN_FAILURE \<and>
   fst (pmem_cleanup host_no_echo 3 running) \<noteq> 3 \<and>
   first_error (since (initial host_meta_fails_no_echo)
      (snd (com_google_MacPmem_start host_meta_fails_no_echo (initial host_meta_fails_no_echo)))) =
     Some 3 \<and>
   fst (com_google_MacPmem_start host_meta_fails_no_echo (initial host_meta_fails_no_echo)) =
     KERN_FAILURE \<and>
   fst (com_google_MacPmem_start host_meta_fails_no_echo (initial host_meta_fails_no_echo)) \<noteq> 3"
  by (simp add: run_meta_fails_no_echo running_def ok_load_events_def read_simps
      const_defs pmem_cleanup_eq cleanup_closed_defs host_no_echo_def host_ok_def word_sless_alt)

section \<open>Major number 0\<close>

text \<open>
  Registration: a negative result makes \<open>pmem_init\<close> fail, and after any other result, 0
  included, \<open>pmem_init\<close> goes on to create the metadata node under that major number.
  Deregistration: \<open>pmem_cleanup\<close> calls \<open>cdevsw_remove\<close> when \<open>pmem_majorno\<close> is positive and
  at no other time.
\<close>

lemma pmem_init_registration:
  "(pmem_majorno (snd (pmem_init env w)) <s 0 \<longrightarrow> fst (pmem_init env w) = KERN_FAILURE) \<and>
   (\<not> pmem_majorno (snd (pmem_init env w)) <s 0 \<longrightarrow>
      Devfs_make_node (makedev env (pmem_majorno (snd (pmem_init env w))) PMEM_INFO_MINOR)
          (PMEM_DEV_PERMS env) pmem_infoname (pmem_infonode (snd (pmem_init env w)))
        \<in> set (since w (snd (pmem_init env w))))"
  by (simp add: pmem_init_def Let_def log_defs emit_def since_def cong: let_weak_cong)

lemma pmem_cleanup_deregisters:
  "(0 <s pmem_majorno w \<longrightarrow>
      Cdevsw_remove (pmem_majorno w) (removed_idx env w)
        \<in> set (since w (snd (pmem_cleanup env e w)))) \<and>
   (\<not> 0 <s pmem_majorno w \<longrightarrow>
      Cdevsw_remove m r \<notin> set (since w (snd (pmem_cleanup env e w))))"
  by (simp add: pmem_cleanup_since cleanup_events_def node_events_def major_events_def
      tail_events_def)

text \<open>
  C5 at the input where the code departs from it. On \<open>host_major_zero\<close> registration returns
  0; \<open>pmem_init\<close> accepts it, since it fails on negative numbers only, and both nodes are
  made with major number 0. The stop that follows succeeds and never calls
  \<open>cdevsw_remove\<close>, since \<open>pmem_cleanup\<close> deregisters positive numbers only.
\<close>

theorem major_zero_never_deregistered:
  "fst (com_google_MacPmem_start host_major_zero (initial host_major_zero)) = KERN_SUCCESS \<and>
   Cdevsw_add (- 1) 0 \<in>
     set (trace (snd (com_google_MacPmem_start host_major_zero (initial host_major_zero)))) \<and>
   pmem_majorno (snd (com_google_MacPmem_start host_major_zero (initial host_major_zero))) = 0 \<and>
   fst (com_google_MacPmem_stop host_major_zero
          (snd (com_google_MacPmem_start host_major_zero (initial host_major_zero)))) =
     KERN_SUCCESS \<and>
   since (snd (com_google_MacPmem_start host_major_zero (initial host_major_zero)))
     (snd (com_google_MacPmem_stop host_major_zero
        (snd (com_google_MacPmem_start host_major_zero (initial host_major_zero))))) =
     [Pmem_log Info ''Unloading MacPmem'' [], Devfs_remove 0x42, Devfs_remove 0x41,
      OSMalloc_Tagfree 0x10, Pmem_meta_cleanup, Pmem_pte_cleanup, Sysctl_unregister_oid,
      Lck_grp_attr_free 0x22, Lck_grp_free 0x32, Lck_grp_attr_free 0x21, Lck_grp_free 0x31]"
  by (simp add: run_major_zero running_def stop_eq since_def cleanup_closed_defs emit_def
      word_sless_alt const_defs)

section \<open>A deregistration that returns another number\<close>

text \<open>
  C6. If during a stop the deregistration returns a number other than the one it was given,
  the stop returns \<open>KERN_FAILURE\<close>; the error is logged and the remaining steps all run:
  the tag is freed if set, both collaborators are cleaned up, the sysctl is unregistered if
  its flag is set, and the four lock-group handles are freed.
\<close>

theorem stop_reports_inconsistent_deregistration:
  assumes "Cdevsw_remove m r \<in> set (since w (snd (com_google_MacPmem_stop env w)))"
    and "r \<noteq> m"
  shows "fst (com_google_MacPmem_stop env w) = KERN_FAILURE \<and>
         (\<exists>pre. since w (snd (com_google_MacPmem_stop env w)) =
            pre @
            [Cdevsw_remove m r,
             Pmem_log Error
               ''Failed to remove cdevsw! Major number is %d, but cdevsw_remove() returned %d.''
               [Num m, Num r]] @
            (if pmem_tag w \<noteq> 0 then [OSMalloc_Tagfree (pmem_tag w)] else []) @
            [Pmem_meta_cleanup, Pmem_pte_cleanup] @
            (if pmem_sysctl_needs_cleanup w \<noteq> 0 then [Sysctl_unregister_oid] else []) @
            [Lck_grp_attr_free (pmem_mutex_grp_attr w), Lck_grp_free (pmem_mutex_grp w),
             Lck_grp_attr_free (pmem_rwlock_grp_attr w), Lck_grp_free (pmem_rwlock_grp w)])"
proof -
  let ?w1 = "emit (Pmem_log Info ''Unloading MacPmem'' []) w"
  have ev: "since w (snd (com_google_MacPmem_stop env w)) =
      Pmem_log Info ''Unloading MacPmem'' [] # node_events w @ major_events env ?w1 @ tail_events w"
    by (simp add: stop_eq since_extend cleanup_events_def emit_events)
  from assms(1) have "Cdevsw_remove m r \<in> set (major_events env ?w1)"
    by (simp add: ev node_events_def tail_events_def split: if_splits)
  with assms(2) have pos: "0 <s pmem_majorno w" and m: "m = pmem_majorno w"
    and r: "r = removed_idx env ?w1"
    by (auto simp add: major_events_def emit_events split: if_splits)
  from pos m r assms(2) have st: "fst (com_google_MacPmem_stop env w) = KERN_FAILURE"
    by (simp add: stop_eq cleanup_status_def emit_events)
  from pos m r assms(2) have
    "since w (snd (com_google_MacPmem_stop env w)) =
       (Pmem_log Info ''Unloading MacPmem'' [] # node_events w) @
       [Cdevsw_remove m r,
        Pmem_log Error
          ''Failed to remove cdevsw! Major number is %d, but cdevsw_remove() returned %d.''
          [Num m, Num r]] @ tail_events w"
    by (simp add: ev major_events_def emit_events)
  then show ?thesis
    using st unfolding tail_events_def by blast
qed

text \<open>C6 at a concrete input: on \<open>host_no_echo\<close> the deregistration of 17 returns -1.\<close>

theorem stop_reports_inconsistent_deregistration_witness:
  "Cdevsw_remove 17 (- 1) \<in> set (since running (snd (com_google_MacPmem_stop host_no_echo running))) \<and>
   (- 1 :: int32) \<noteq> 17 \<and>
   fst (com_google_MacPmem_stop host_no_echo running) = KERN_FAILURE"
proof -
  have a: "Cdevsw_remove 17 (- 1)
      \<in> set (since running (snd (com_google_MacPmem_stop host_no_echo running)))"
    by (simp add: stop_eq since_def cleanup_closed_defs emit_def running_def host_no_echo_def
        host_ok_def word_sless_alt)
  have b: "(- 1 :: int32) \<noteq> 17"
    by simp
  from stop_reports_inconsistent_deregistration [OF a b] show ?thesis
    using a b by blast
qed

section \<open>Nodes before the major number\<close>

text \<open>
  C7. In every run that reaches the rollback routine, be it \<open>pmem_cleanup\<close> called on any
  world with any error, a stop, or a start, no node is removed after the major number is
  deregistered, and each node whose handle is set has been removed before.
\<close>

theorem nodes_removed_before_deregistration:
  assumes "w' = snd (pmem_cleanup env e w) \<or> w' = snd (com_google_MacPmem_stop env w) \<or>
           w' = snd (com_google_MacPmem_start env w)"
    and "since w w' = pre @ Cdevsw_remove m r # post"
  shows "(\<forall>p. Devfs_remove p \<notin> set post) \<and>
         (pmem_devnode w' \<noteq> 0 \<longrightarrow> Devfs_remove (pmem_devnode w') \<in> set pre) \<and>
         (pmem_infonode w' \<noteq> 0 \<longrightarrow> Devfs_remove (pmem_infonode w') \<in> set pre)"
proof -
  have "releases (since w w') \<noteq> []"
    by (simp add: assms(2) releases_append releases_Cons release_of_def)
  with rollback_shape [OF assms(1)] obtain evs wk where
    ev: "since w w' = evs @ cleanup_events env wk" and rel: "releases evs = []"
    and h: "handles.truncate wk = handles.truncate w'"
    by blast
  from ev assms(2) have "evs @ cleanup_events env wk = pre @ Cdevsw_remove m r # post"
    by simp
  from removal_order [OF this rel] have post: "\<forall>p. Devfs_remove p \<notin> set post"
    and pre: "set (node_events wk) \<subseteq> set pre"
    by blast+
  from truncate_nodes [OF h] have "pmem_devnode wk = pmem_devnode w'"
    and "pmem_infonode wk = pmem_infonode w'"
    by blast+
  then have "pmem_devnode w' \<noteq> 0 \<longrightarrow> Devfs_remove (pmem_devnode w') \<in> set (node_events wk)"
    and "pmem_infonode w' \<noteq> 0 \<longrightarrow> Devfs_remove (pmem_infonode w') \<in> set (node_events wk)"
    by (simp_all add: node_events_def)
  with post pre show ?thesis by blast
qed

text \<open>C7 at a concrete input: the run of \<open>pmem_cleanup\<close> on \<open>running\<close>.\<close>

theorem nodes_removed_before_deregistration_witness:
  "since running (snd (pmem_cleanup host_ok KERN_SUCCESS running)) =
     [Devfs_remove 0x42, Devfs_remove 0x41] @ Cdevsw_remove 17 17 #
     [OSMalloc_Tagfree 0x10, Pmem_meta_cleanup, Pmem_pte_cleanup, Sysctl_unregister_oid,
      Lck_grp_attr_free 0x22, Lck_grp_free 0x32, Lck_grp_attr_free 0x21, Lck_grp_free 0x31] \<and>
   (\<forall>p. Devfs_remove p \<notin>
      set [OSMalloc_Tagfree 0x10, Pmem_meta_cleanup, Pmem_pte_cleanup, Sysctl_unregister_oid,
           Lck_grp_attr_free 0x22, Lck_grp_free 0x32, Lck_grp_attr_free 0x21, Lck_grp_free 0x31]) \<and>
   Devfs_remove 0x42 \<in> set [Devfs_remove 0x42, Devfs_remove 0x41 :: event] \<and>
   Devfs_remove 0x41 \<in> set [Devfs_remove 0x42, Devfs_remove 0x41 :: event]"
proof -
  let ?w' = "snd (pmem_cleanup host_ok KERN_SUCCESS running)"
  have tr: "since running ?w' =
     [Devfs_remove 0x42, Devfs_remove 0x41] @ Cdevsw_remove 17 17 #
     [OSMalloc_Tagfree 0x10, Pmem_meta_cleanup, Pmem_pte_cleanup, Sysctl_unregister_oid,
      Lck_grp_attr_free 0x22, Lck_grp_free 0x32, Lck_grp_attr_free 0x21, Lck_grp_free 0x31]"
    by (simp add: pmem_cleanup_since cleanup_closed_defs running_def host_ok_def word_sless_alt)
  have "?w' = snd (pmem_cleanup host_ok KERN_SUCCESS running) \<or>
        ?w' = snd (com_google_MacPmem_stop host_ok running) \<or>
        ?w' = snd (com_google_MacPmem_start host_ok running)"
    by simp
  from nodes_removed_before_deregistration [OF this tr] show ?thesis
    using tr by (simp add: pmem_cleanup_eq running_def)
qed

section \<open>Dispatch on the minor number\<close>

text \<open>
  C8. With minor number \<open>PMEM_DEV_MINOR\<close>, open and close return \<open>KERN_SUCCESS\<close> and do
  nothing else, and read calls \<open>pmem_read_rogue\<close> and nothing else. With minor number
  \<open>PMEM_INFO_MINOR\<close> each of the three calls the handler of the metadata collaborator and
  nothing else, and returns its status. With any other minor number each returns
  \<open>KERN_FAILURE\<close> (the only status the file has for an unknown device), logs one warning,
  and calls no collaborator. No handle variable changes in any case.
\<close>

theorem dispatch_by_minor:
  "(minor env dev = PMEM_DEV_MINOR \<longrightarrow>
      pmem_open env dev w = (KERN_SUCCESS, w) \<and>
      pmem_close env dev w = (KERN_SUCCESS, w) \<and>
      fst (pmem_read env dev uio w) = pmem_read_rogue env (length (trace w)) uio \<and>
      since w (snd (pmem_read env dev uio w)) =
        [Pmem_read_rogue uio (pmem_read_rogue env (length (trace w)) uio)] \<and>
      handles.truncate (snd (pmem_read env dev uio w)) = handles.truncate w) \<and>
   (minor env dev = PMEM_INFO_MINOR \<longrightarrow>
      fst (pmem_open env dev w) = pmem_openmeta env (length (trace w)) \<and>
      since w (snd (pmem_open env dev w)) = [Pmem_openmeta (pmem_openmeta env (length (trace w)))] \<and>
      handles.truncate (snd (pmem_open env dev w)) = handles.truncate w \<and>
      fst (pmem_close env dev w) = pmem_closemeta env (length (trace w)) \<and>
      since w (snd (pmem_close env dev w)) =
        [Pmem_closemeta (pmem_closemeta env (length (trace w)))] \<and>
      handles.truncate (snd (pmem_close env dev w)) = handles.truncate w \<and>
      fst (pmem_read env dev uio w) = pmem_readmeta env (length (trace w)) uio \<and>
      since w (snd (pmem_read env dev uio w)) =
        [Pmem_readmeta uio (pmem_readmeta env (length (trace w)) uio)] \<and>
      handles.truncate (snd (pmem_read env dev uio w)) = handles.truncate w) \<and>
   (minor env dev \<noteq> PMEM_DEV_MINOR \<and> minor env dev \<noteq> PMEM_INFO_MINOR \<longrightarrow>
      fst (pmem_open env dev w) = KERN_FAILURE \<and>
      fst (pmem_close env dev w) = KERN_FAILURE \<and>
      fst (pmem_read env dev uio w) = KERN_FAILURE \<and>
      since w (snd (pmem_open env dev w)) =
        [Pmem_log Warning ''Unknown minor device number %d.'' [Num (minor env dev)]] \<and>
      since w (snd (pmem_close env dev w)) =
        [Pmem_log Warning ''Unknown minor device number %d.'' [Num (minor env dev)]] \<and>
      since w (snd (pmem_read env dev uio w)) =
        [Pmem_log Warning ''Unknown minor device number %d.'' [Num (minor env dev)]] \<and>
      handles.truncate (snd (pmem_open env dev w)) = handles.truncate w \<and>
      handles.truncate (snd (pmem_close env dev w)) = handles.truncate w \<and>
      handles.truncate (snd (pmem_read env dev uio w)) = handles.truncate w)"
  by (simp add: pmem_open_def pmem_close_def pmem_read_def Let_def pmem_warn_def emit_def
      since_def handles.truncate_def PMEM_DEV_MINOR_def PMEM_INFO_MINOR_def)

text \<open>C8 at concrete inputs: the minor numbers 1, 2 and 3 under major number 17.\<close>

theorem dispatch_by_minor_witness:
  "minor host_ok 0x11000001 = PMEM_DEV_MINOR \<and>
   pmem_open host_ok 0x11000001 running = (KERN_SUCCESS, running) \<and>
   since running (snd (pmem_read host_ok 0x11000001 0x1000 running)) = [Pmem_read_rogue 0x1000 0] \<and>
   minor host_ok 0x11000002 = PMEM_INFO_MINOR \<and>
   since running (snd (pmem_open host_ok 0x11000002 running)) = [Pmem_openmeta 0] \<and>
   since running (snd (pmem_read host_ok 0x11000002 0x1000 running)) = [Pmem_readmeta 0x1000 0] \<and>
   minor host_ok 0x11000003 \<noteq> PMEM_DEV_MINOR \<and>
   minor host_ok 0x11000003 \<noteq> PMEM_INFO_MINOR \<and>
   fst (pmem_read host_ok 0x11000003 0x1000 running) = KERN_FAILURE \<and>
   since running (snd (pmem_read host_ok 0x11000003 0x1000 running)) =
     [Pmem_log Warning ''Unknown minor device number %d.'' [Num 3]]"
proof -
  have a: "minor host_ok 0x11000001 = PMEM_DEV_MINOR"
    by (simp add: host_ok_def PMEM_DEV_MINOR_def)
  have b: "minor host_ok 0x11000002 = PMEM_INFO_MINOR"
    by (simp add: host_ok_def PMEM_INFO_MINOR_def)
  have c: "minor host_ok 0x11000003 = 3"
    by (simp add: host_ok_def)
  have d: "minor host_ok 0x11000003 \<noteq> PMEM_DEV_MINOR \<and> minor host_ok 0x11000003 \<noteq> PMEM_INFO_MINOR"
    by (simp add: c PMEM_DEV_MINOR_def PMEM_INFO_MINOR_def)
  have e: "pmem_read_rogue host_ok (length (trace running)) 0x1000 = 0"
    "pmem_openmeta host_ok (length (trace running)) = 0"
    "pmem_readmeta host_ok (length (trace running)) 0x1000 = 0"
    by (simp_all add: host_ok_def)
  from dispatch_by_minor [of host_ok "0x11000001" running "0x1000"]
    dispatch_by_minor [of host_ok "0x11000002" running "0x1000"]
    dispatch_by_minor [of host_ok "0x11000003" running "0x1000"]
  show ?thesis
    using a b d by (simp add: c e)
qed

section \<open>Allocations whose result is not tested\<close>

text \<open>
  C9, as the code has it. \<open>pmem_init\<close> tests the result of no allocation of its first step:
  what \<open>lck_grp_alloc_init\<close> returns, null or not, is stored in the handle, and the
  registration of the major number follows in every case. A start succeeds exactly when no
  registration, node creation or collaborator initialisation failed, so a null lock group
  never makes it fail.
\<close>

theorem start_ignores_allocation_results:
  "(fst (com_google_MacPmem_start env w) = KERN_SUCCESS) =
     (first_error (since w (snd (com_google_MacPmem_start env w))) = None) \<and>
   Lck_grp_alloc_init ''pmem_rwlock'' (pmem_rwlock_grp_attr (snd (pmem_init env w)))
       (pmem_rwlock_grp (snd (pmem_init env w))) \<in> set (since w (snd (pmem_init env w))) \<and>
   Lck_grp_alloc_init ''pmem_mutex'' (pmem_mutex_grp_attr (snd (pmem_init env w)))
       (pmem_mutex_grp (snd (pmem_init env w))) \<in> set (since w (snd (pmem_init env w))) \<and>
   Cdevsw_add (PMEM_MAJOR env) (pmem_majorno (snd (pmem_init env w)))
       \<in> set (since w (snd (pmem_init env w)))"
proof -
  have "(fst (com_google_MacPmem_start env w) = KERN_SUCCESS) =
     (first_error (since w (snd (com_google_MacPmem_start env w))) = None)"
  proof (cases "fst (com_google_MacPmem_start env w) = KERN_SUCCESS")
    case True
    then obtain ei where
      "since w (snd (com_google_MacPmem_start env w)) =
         Pmem_log Info ''Loaded MacPmem.'' [] # ei @
         [Pmem_meta_init KERN_SUCCESS, Pmem_pte_init KERN_SUCCESS, Sysctl_register_oid]"
      and "first_error ei = None"
      by (rule start_success_shape)
    then have "first_error (since w (snd (com_google_MacPmem_start env w))) = None"
      by (simp add: first_error_Cons first_error_append first_error_Nil failure_of_def)
    with True show ?thesis by simp
  next
    case False
    then obtain wk e evs where
      run: "com_google_MacPmem_start env w = pmem_cleanup env e wk"
      and tr: "trace wk = trace w @ evs" and err: "first_error evs = Some e"
      by (rule start_failure)
    have "first_error (since w (snd (com_google_MacPmem_start env w))) = Some e"
      by (simp add: start_failure_since [OF run tr] first_error_append err)
    with False show ?thesis by simp
  qed
  then show ?thesis using pmem_init_stores [of env w] by blast
qed

text \<open>
  C9 as stated fails. On \<open>host_no_lock_groups\<close> every lock-group and attribute allocation
  returns null, and the start returns \<open>KERN_SUCCESS\<close> with all four handles null.
\<close>

theorem null_lock_groups_counterexample:
  "fst (com_google_MacPmem_start host_no_lock_groups (initial host_no_lock_groups)) =
     KERN_SUCCESS \<and>
   pmem_rwlock_grp_attr
     (snd (com_google_MacPmem_start host_no_lock_groups (initial host_no_lock_groups))) = 0 \<and>
   pmem_rwlock_grp
     (snd (com_google_MacPmem_start host_no_lock_groups (initial host_no_lock_groups))) = 0 \<and>
   pmem_mutex_grp_attr
     (snd (com_google_MacPmem_start host_no_lock_groups (initial host_no_lock_groups))) = 0 \<and>
   pmem_mutex_grp
     (snd (com_google_MacPmem_start host_no_lock_groups (initial host_no_lock_groups))) = 0 \<and>
   Lck_grp_alloc_init ''pmem_rwlock'' 0 0 \<in>
     set (trace (snd (com_google_MacPmem_start host_no_lock_groups (initial host_no_lock_groups)))) \<and>
   Lck_grp_alloc_init ''pmem_mutex'' 0 0 \<in>
     set (trace (snd (com_google_MacPmem_start host_no_lock_groups (initial host_no_lock_groups))))"
  by (simp add: run_no_lock_groups running_def)

section \<open>The status \<open>pmem_cleanup\<close> returns\<close>

text \<open>
  C10. The status returned differs from the argument only through the test on the value
  \<open>cdevsw_remove\<close> returns: when \<open>pmem_majorno\<close> is not positive, or when the call echoes
  \<open>pmem_majorno\<close>, \<open>pmem_cleanup e\<close> returns \<open>e\<close>, whatever the other handles are and
  whatever the other calls do; and in any case it returns \<open>e\<close> or \<open>KERN_FAILURE\<close>.
\<close>

theorem pmem_cleanup_status:
  "((\<not> 0 <s pmem_majorno w \<or>
     (\<forall>r. Cdevsw_remove (pmem_majorno w) r \<in> set (since w (snd (pmem_cleanup env e w)))
        \<longrightarrow> r = pmem_majorno w))
    \<longrightarrow> fst (pmem_cleanup env e w) = e) \<and>
   (fst (pmem_cleanup env e w) = e \<or> fst (pmem_cleanup env e w) = KERN_FAILURE)"
  by (auto simp add: pmem_cleanup_eq since_extend cleanup_status_def cleanup_events_def
      major_events_def)

text \<open>
  C10 at a concrete input: on \<open>host_ok\<close> the deregistration of major number 17 returns 17,
  and the status 3 passed in comes back.
\<close>

theorem pmem_cleanup_status_witness:
  "since running (snd (pmem_cleanup host_ok 3 running)) =
     [Devfs_remove 0x42, Devfs_remove 0x41, Cdevsw_remove 17 17, OSMalloc_Tagfree 0x10,
      Pmem_meta_cleanup, Pmem_pte_cleanup, Sysctl_unregister_oid, Lck_grp_attr_free 0x22,
      Lck_grp_free 0x32, Lck_grp_attr_free 0x21, Lck_grp_free 0x31] \<and>
   fst (pmem_cleanup host_ok 3 running) = 3"
proof -
  have tr: "since running (snd (pmem_cleanup host_ok 3 running)) =
     [Devfs_remove 0x42, Devfs_remove 0x41, Cdevsw_remove 17 17, OSMalloc_Tagfree 0x10,
      Pmem_meta_cleanup, Pmem_pte_cleanup, Sysctl_unregister_oid, Lck_grp_attr_free 0x22,
      Lck_grp_free 0x32, Lck_grp_attr_free 0x21, Lck_grp_free 0x31]"
    by (simp add: pmem_cleanup_since cleanup_closed_defs running_def host_ok_def
        word_sless_alt)
  have echo: "\<forall>r. Cdevsw_remove (pmem_majorno running) r
       \<in> set (since running (snd (pmem_cleanup host_ok 3 running)))
     \<longrightarrow> r = pmem_majorno running"
    unfolding tr by (simp add: running_def)
  from pmem_cleanup_status [of running host_ok 3] echo
  have "fst (pmem_cleanup host_ok 3 running) = 3"
    by blast
  with tr show ?thesis by simp
qed

end
